theory Spec2Isabelle
  imports Complex_Main
begin

section \<open>The reslicing adapter of MRtrix3 (\<^verbatim>\<open>Adapter::Reslice\<close>)\<close>

text \<open>
  The development embeds the class template \<^verbatim>\<open>MR::Adapter::Reslice\<close> of
  \<^verbatim>\<open>src/unnamed/part_001\<close>. Arithmetic in \<^verbatim>\<open>default_type\<close> (double) is modelled by exact
  arithmetic on \<^typ>\<open>real\<close>. A C++ \<^verbatim>\<open>int\<close> is an \<^typ>\<open>int\<close> with the 32-bit wrap-around
  written out where the code multiplies, and with the conversion from double written out
  where the code stores a double in an \<^verbatim>\<open>int\<close>. The image's \<^verbatim>\<open>value_type\<close> is a parameter
  of the interpolator: its values are reals, and every store into a \<^verbatim>\<open>value_type\<close> variable
  goes through the conversion \<open>to_value_type\<close>.
\<close>

subsection \<open>Machine integers\<close>

text \<open>The value of a 32-bit \<^verbatim>\<open>int\<close> operation whose exact result is \<open>v\<close>: two's complement
  wrap-around.\<close>

definition wrap_int :: "int \<Rightarrow> int" where
  "wrap_int v = (v + 2147483648) mod 4294967296 - 2147483648"

text \<open>The same for a 64-bit \<^verbatim>\<open>ssize_t\<close>.\<close>

definition wrap_ssize :: "int \<Rightarrow> int" where
  "wrap_ssize v = (v + 9223372036854775808) mod 18446744073709551616 - 9223372036854775808"

text \<open>Truncation toward zero, the conversion of a double to an integer type.\<close>

definition trunc_zero :: "real \<Rightarrow> int" where
  "trunc_zero v = (if 0 \<le> v then \<lfloor>v\<rfloor> else \<lceil>v\<rceil>)"

text \<open>The conversion of a double to \<^verbatim>\<open>int\<close>: the truncated value where that fits in 32 bits;
  elsewhere the C++ standard leaves the result open and the conversion instruction of
  x86-64 gives the smallest \<^verbatim>\<open>int\<close>.\<close>

definition double_to_int :: "real \<Rightarrow> int" where
  "double_to_int v =
     (if - 2147483648 \<le> trunc_zero v \<and> trunc_zero v \<le> 2147483647 then trunc_zero v
      else - 2147483648)"

subsection \<open>Eigen: 3-vectors, 3x3 matrices and compact affine transforms\<close>

type_synonym Vector3d = "real \<times> real \<times> real"

text \<open>A matrix is the triple of its rows.\<close>

type_synonym Matrix3d = "Vector3d \<times> Vector3d \<times> Vector3d"

text \<open>\<^verbatim>\<open>transform_type\<close> is Eigen's compact affine transform: a 3x3 linear part and a
  translation column.\<close>

record transform_type =
  linear :: Matrix3d
  translation :: Vector3d

fun vec_add :: "Vector3d \<Rightarrow> Vector3d \<Rightarrow> Vector3d" where
  "vec_add (a0, a1, a2) (b0, b1, b2) = (a0 + b0, a1 + b1, a2 + b2)"

fun vec_sub :: "Vector3d \<Rightarrow> Vector3d \<Rightarrow> Vector3d" where
  "vec_sub (a0, a1, a2) (b0, b1, b2) = (a0 - b0, a1 - b1, a2 - b2)"

fun vec_neg :: "Vector3d \<Rightarrow> Vector3d" where
  "vec_neg (a0, a1, a2) = (- a0, - a1, - a2)"

fun vec_dot :: "Vector3d \<Rightarrow> Vector3d \<Rightarrow> real" where
  "vec_dot (a0, a1, a2) (b0, b1, b2) = a0 * b0 + a1 * b1 + a2 * b2"

text \<open>\<^verbatim>\<open>v.norm()\<close>: the Euclidean length.\<close>

fun vec_norm :: "Vector3d \<Rightarrow> real" where
  "vec_norm (a0, a1, a2) = sqrt (a0 * a0 + a1 * a1 + a2 * a2)"

fun mat_vec :: "Matrix3d \<Rightarrow> Vector3d \<Rightarrow> Vector3d" where
  "mat_vec (r0, r1, r2) v = (vec_dot r0 v, vec_dot r1 v, vec_dot r2 v)"

fun mat_transpose :: "Matrix3d \<Rightarrow> Matrix3d" where
  "mat_transpose ((a, b, c), (d, e, f), (g, h, i)) = ((a, d, g), (b, e, h), (c, f, i))"

fun mat_mul :: "Matrix3d \<Rightarrow> Matrix3d \<Rightarrow> Matrix3d" where
  "mat_mul (r0, r1, r2) B =
     (mat_vec (mat_transpose B) r0, mat_vec (mat_transpose B) r1, mat_vec (mat_transpose B) r2)"

fun mat_det :: "Matrix3d \<Rightarrow> real" where
  "mat_det ((a, b, c), (d, e, f), (g, h, i)) =
     a * (e * i - f * h) - b * (d * i - f * g) + c * (d * h - e * g)"

text \<open>The inverse by the adjugate; it is the inverse only where the determinant is not 0.\<close>

fun mat_inverse :: "Matrix3d \<Rightarrow> Matrix3d" where
  "mat_inverse ((a, b, c), (d, e, f), (g, h, i)) =
     (let dt = mat_det ((a, b, c), (d, e, f), (g, h, i)) in
      (((e * i - f * h) / dt, (c * h - b * i) / dt, (b * f - c * e) / dt),
       ((f * g - d * i) / dt, (a * i - c * g) / dt, (c * d - a * f) / dt),
       ((d * h - e * g) / dt, (b * g - a * h) / dt, (a * e - b * d) / dt)))"

fun vec_scale :: "real \<Rightarrow> Vector3d \<Rightarrow> Vector3d" where
  "vec_scale k (a0, a1, a2) = (k * a0, k * a1, k * a2)"

text \<open>\<^verbatim>\<open>T * v\<close> for a transform and a vector.\<close>

definition transform_apply :: "transform_type \<Rightarrow> Vector3d \<Rightarrow> Vector3d" where
  "transform_apply T v = vec_add (mat_vec (linear T) v) (translation T)"

text \<open>\<^verbatim>\<open>A * B\<close> for two transforms: first \<open>B\<close>, then \<open>A\<close>.\<close>

definition transform_mul :: "transform_type \<Rightarrow> transform_type \<Rightarrow> transform_type" where
  "transform_mul A B =
     \<lparr>linear = mat_mul (linear A) (linear B), translation = transform_apply A (translation B)\<rparr>"

definition transform_inverse :: "transform_type \<Rightarrow> transform_type" where
  "transform_inverse T =
     \<lparr>linear = mat_inverse (linear T),
      translation = mat_vec (mat_inverse (linear T)) (vec_neg (translation T))\<rparr>"

definition identity_matrix :: Matrix3d where
  "identity_matrix = ((1, 0, 0), (0, 1, 0), (0, 0, 1))"

definition identity_transform :: transform_type where
  "identity_transform = \<lparr>linear = identity_matrix, translation = (0, 0, 0)\<rparr>"

text \<open>\<^verbatim>\<open>T * DiagonalMatrix (s0, s1, s2)\<close> scales the columns of the linear part.\<close>

fun diagonal :: "Vector3d \<Rightarrow> Matrix3d" where
  "diagonal (s0, s1, s2) = ((s0, 0, 0), (0, s1, 0), (0, 0, s2))"

definition transform_scale :: "transform_type \<Rightarrow> Vector3d \<Rightarrow> transform_type" where
  "transform_scale T s = \<lparr>linear = mat_mul (linear T) (diagonal s), translation = translation T\<rparr>"

subsection \<open>Headers, the \<^verbatim>\<open>Transform\<close> helper and the interpolator\<close>

text \<open>What the adapter reads of an image header (\<^verbatim>\<open>HeaderType\<close>, and the header of the
  original image): number of axes, size and voxel size per axis, the transform and the name.\<close>

record header =
  hdr_ndim :: nat
  hdr_size :: "nat \<Rightarrow> int"
  hdr_voxsize :: "nat \<Rightarrow> real"
  hdr_transform :: transform_type
  hdr_name :: string

record Transform_t =
  voxel2scanner :: transform_type
  scanner2voxel :: transform_type

text \<open>
  Modelled from the spec: the class \<^verbatim>\<open>Transform\<close> of \<^verbatim>\<open>transform.h\<close> is not among the
  sources. The spec describes a grid as integer indices "mapped to continuous space via
  spacing and an affine transform" and the composed mapping as the inverse of the source's
  index-to-world map after the extra transform after the reference's index-to-world map:
  \<open>voxel2scanner\<close> scales an index by the voxel sizes and applies the header transform,
  \<open>scanner2voxel\<close> is its inverse.
\<close>

definition Transform :: "header \<Rightarrow> Transform_t" where
  "Transform h =
     (let v2s = transform_scale (hdr_transform h) (hdr_voxsize h 0, hdr_voxsize h 1, hdr_voxsize h 2)
      in \<lparr>voxel2scanner = v2s, scanner2voxel = transform_inverse v2s\<rparr>)"

text \<open>
  Modelled from the spec: the constants \<^verbatim>\<open>NoTransform\<close> and \<^verbatim>\<open>AutoOverSample\<close> are only
  declared \<^verbatim>\<open>extern\<close> in the source. By the spec the extra transform is the identity when
  none is supplied, and the factors are estimated when no explicit ones are given (the
  constructor tests \<^verbatim>\<open>oversample.size()\<close>).
\<close>

definition NoTransform :: transform_type where
  "NoTransform = identity_transform"

definition AutoOverSample :: "int list" where
  "AutoOverSample = []"

text \<open>
  Modelled from the spec: the interpolator classes (\<^verbatim>\<open>Interpolator<ImageType>\<close>, a
  template parameter) are not among the sources. By the spec the Interpolated Source is
  queried at a continuous position of the source's index space and then gives a value and
  a validity flag, owns the cursor of the axes beyond the third, and passes the original's
  shape, spacing and name through. \<open>in_bounds\<close> and \<open>value_at\<close> are the kernel over the
  wrapped data: the flag and the value (which may be the out-of-bounds fallback) at a
  position, for given indices of the non-spatial axes. \<open>to_value_type\<close> is the conversion of
  a double to the image's \<^verbatim>\<open>value_type\<close>: the identity for a floating-point type, a
  truncation for an integer type. \<open>pos\<close> is the position of the last query, and \<open>lookups\<close>
  counts the queries made.
\<close>

record interp_t =
  image :: header
  in_bounds :: "Vector3d \<Rightarrow> bool"
  value_at :: "(nat \<Rightarrow> int) \<Rightarrow> Vector3d \<Rightarrow> real"
  to_value_type :: "real \<Rightarrow> real"
  pos :: Vector3d
  idx :: "nat \<Rightarrow> int"
  lookups :: nat

text \<open>\<^verbatim>\<open>interp.voxel (p)\<close>\<close>

definition interp_voxel :: "interp_t \<Rightarrow> Vector3d \<Rightarrow> interp_t" where
  "interp_voxel it p = it\<lparr>pos := p, lookups := Suc (lookups it)\<rparr>"

text \<open>\<^verbatim>\<open>!interp\<close>: the last query was outside the usable region.\<close>

definition interp_not :: "interp_t \<Rightarrow> bool" where
  "interp_not it = (\<not> in_bounds it (pos it))"

text \<open>\<^verbatim>\<open>interp.value()\<close>\<close>

definition interp_value :: "interp_t \<Rightarrow> real" where
  "interp_value it = value_at it (idx it) (pos it)"

subsection \<open>The class \<^verbatim>\<open>Reslice\<close>\<close>

datatype error = Assertion string | Exception string

text \<open>The data members. \<open>transform'\<close>, \<open>from'\<close> and \<open>norm'\<close> are the members
  \<^verbatim>\<open>transform_\<close>, \<^verbatim>\<open>from\<close> and \<^verbatim>\<open>norm\<close>.\<close>

record reslice =
  interp :: interp_t
  x :: "int list"
  dim :: "int list"
  vox :: "real list"
  oversampling :: bool
  OS :: "int list"
  from' :: "real list"
  inc :: "real list"
  norm' :: real
  transform' :: transform_type
  direct_transform :: transform_type

text \<open>Lines 109 to 115, for the unit step \<open>e\<close> of a reference axis: the value of
  \<^verbatim>\<open>std::ceil (0.999 * (y-x0).norm())\<close>, a double, and the factor that the assignment to
  \<^verbatim>\<open>int OS[i]\<close> stores.\<close>

definition ceil_estimate :: "transform_type \<Rightarrow> Vector3d \<Rightarrow> real" where
  "ceil_estimate direct e =
     (let y = transform_apply direct (0, 0, 0);
          x0 = transform_apply direct e
      in real_of_int \<lceil>0.999 * vec_norm (vec_sub y x0)\<rceil>)"

definition estimate_factor :: "transform_type \<Rightarrow> Vector3d \<Rightarrow> int" where
  "estimate_factor direct e = double_to_int (ceil_estimate direct e)"

text \<open>Lines 100 to 116: the factors \<^verbatim>\<open>OS\<close>, explicit or estimated.\<close>

definition oversample_factors :: "transform_type \<Rightarrow> int list \<Rightarrow> error + int list" where
  "oversample_factors direct oversample =
     (if length oversample \<noteq> 0 then
        if length oversample \<noteq> 3 then Inl (Assertion ''oversample.size() == 3'')
        else if oversample ! 0 < 1 \<or> oversample ! 1 < 1 \<or> oversample ! 2 < 1
          then Inl (Exception ''oversample factors must be greater than zero'')
        else Inr [oversample ! 0, oversample ! 1, oversample ! 2]
      else
        Inr [estimate_factor direct (1, 0, 0),
             estimate_factor direct (0, 1, 0),
             estimate_factor direct (0, 0, 1)])"

text \<open>Line 96, the initialiser of \<^verbatim>\<open>direct_transform\<close>: from the reference's index space
  to scanner space, the extra transform, then into the original's index space.\<close>

definition composed :: "interp_t \<Rightarrow> header \<Rightarrow> transform_type \<Rightarrow> transform_type" where
  "composed interp0 reference transform =
     transform_mul (transform_mul (scanner2voxel (Transform (image interp0))) transform)
                   (voxel2scanner (Transform reference))"

text \<open>The unit step of reference axis \<open>i\<close>, and the linear part of the composed mapping
  before the reference's voxel sizes scale its columns.\<close>

definition unit_step :: "nat \<Rightarrow> Vector3d" where
  "unit_step i = (if i = 0 then (1, 0, 0) else if i = 1 then (0, 1, 0) else (0, 0, 1))"

definition unscaled :: "interp_t \<Rightarrow> header \<Rightarrow> transform_type \<Rightarrow> Matrix3d" where
  "unscaled it reference T =
     mat_mul (mat_mul (linear (scanner2voxel (Transform (image it)))) (linear T))
             (linear (hdr_transform reference))"

text \<open>
  The constructor. \<open>interp0\<close> is the member \<^verbatim>\<open>interp (original, value_when_out_of_bounds)\<close>,
  whose header is the original's. The test of line 118 multiplies the factors as 32-bit
  \<^verbatim>\<open>int\<close>s. Where that product is at most 1 the members \<^verbatim>\<open>from\<close>, \<^verbatim>\<open>inc\<close> and \<^verbatim>\<open>norm\<close>
  stay uninitialised.
\<close>

definition Reslice ::
  "interp_t \<Rightarrow> header \<Rightarrow> transform_type \<Rightarrow> int list \<Rightarrow> error + reslice" where
  "Reslice interp0 reference transform oversample =
     (let direct = composed interp0 reference transform
      in
      if \<not> 3 \<le> hdr_ndim (image interp0) then Inl (Assertion ''ndim() >= 3'')
      else
        case oversample_factors direct oversample of
          Inl e \<Rightarrow> Inl e
        | Inr os \<Rightarrow>
            let r = \<lparr>interp = interp0,
                     x = [0, 0, 0],
                     dim = [hdr_size reference 0, hdr_size reference 1, hdr_size reference 2],
                     vox = [hdr_voxsize reference 0, hdr_voxsize reference 1,
                            hdr_voxsize reference 2],
                     oversampling = False,
                     OS = os,
                     from' = undefined,
                     inc = undefined,
                     norm' = undefined,
                     transform' = hdr_transform reference,
                     direct_transform = direct\<rparr>
            in
            if wrap_int (wrap_int (os ! 0 * os ! 1) * os ! 2) > 1 then
              let inc1 = map (\<lambda>i. 1.0 / real_of_int (os ! i)) [0, 1, 2];
                  from1 = map (\<lambda>i. 0.5 * (inc1 ! i - 1.0)) [0, 1, 2];
                  norm1 = fold (\<lambda>i n. n * real_of_int (os ! i)) [0, 1, 2] 1.0
              in Inr (r\<lparr>oversampling := True, inc := inc1, from' := from1,
                        norm' := 1.0 / norm1\<rparr>)
            else Inr r)"

definition ndim :: "reslice \<Rightarrow> nat" where
  "ndim r = hdr_ndim (image (interp r))"



definition transform :: "reslice \<Rightarrow> transform_type" where
  "transform r = transform' r"

definition name :: "reslice \<Rightarrow> string" where
  "name r = hdr_name (image (interp r))"

text \<open>\<^verbatim>\<open>reset()\<close>: the loop over the axes from 3 on sets each of their indices to 0.\<close>

definition reset :: "reslice \<Rightarrow> reslice" where
  "reset r =
     r\<lparr>x := [0, 0, 0],
       interp := (interp r)\<lparr>idx := (\<lambda>n. if 3 \<le> n \<and> n < hdr_ndim (image (interp r)) then 0
                                        else idx (interp r) n)\<rparr>\<rparr>"

text \<open>\<^verbatim>\<open>index (axis) const\<close>\<close>

definition index :: "reslice \<Rightarrow> nat \<Rightarrow> int" where
  "index r axis = (if axis < 3 then x r ! axis else idx (interp r) axis)"

text \<open>\<^verbatim>\<open>move_index (axis, increment)\<close>: the indices are 64-bit \<^verbatim>\<open>ssize_t\<close> values.\<close>

definition move_index :: "reslice \<Rightarrow> nat \<Rightarrow> int \<Rightarrow> reslice" where
  "move_index r axis increment =
     (if axis < 3 then r\<lparr>x := (x r)[axis := wrap_ssize (x r ! axis + increment)]\<rparr>
      else r\<lparr>interp := (interp r)\<lparr>idx := (idx (interp r))
                 (axis := wrap_ssize (idx (interp r) axis + increment))\<rparr>\<rparr>)"

subsection \<open>\<^verbatim>\<open>value()\<close>\<close>

text \<open>Lines 157 to 159, the body of the innermost loop: query the interpolator at the
  mapped position \<open>s\<close> and add its value if the position is usable; \<^verbatim>\<open>result\<close> is a
  \<^verbatim>\<open>value_type\<close>.\<close>

definition sample :: "reslice \<Rightarrow> Vector3d \<Rightarrow> interp_t \<times> real \<Rightarrow> interp_t \<times> real" where
  "sample r s st =
     (let it = interp_voxel (fst st) (transform_apply (direct_transform r) s)
      in if interp_not it then (it, snd st)
         else (it, to_value_type it (snd st + interp_value it)))"

text \<open>The three loops, innermost first. \<open>d\<close> is the vector of line 148, \<open>s1\<close> and \<open>s2\<close>
  are the components \<^verbatim>\<open>s[1]\<close> and \<^verbatim>\<open>s[2]\<close> set by the enclosing loops, the state is the
  interpolator and \<^verbatim>\<open>result\<close>.\<close>

function loop_x ::
  "reslice \<Rightarrow> Vector3d \<Rightarrow> real \<Rightarrow> real \<Rightarrow> int \<Rightarrow> interp_t \<times> real \<Rightarrow> interp_t \<times> real" where
  "loop_x r d s1 s2 xi st =
     (if xi < OS r ! 0
      then loop_x r d s1 s2 (xi + 1) (sample r (fst d + real_of_int xi * inc r ! 0, s1, s2) st)
      else st)"
  by pat_completeness auto
termination
  by (relation "measure (\<lambda>(r, d, s1, s2, xi, st). nat (OS r ! 0 - xi))") auto

declare loop_x.simps [simp del]

function loop_y ::
  "reslice \<Rightarrow> Vector3d \<Rightarrow> real \<Rightarrow> int \<Rightarrow> interp_t \<times> real \<Rightarrow> interp_t \<times> real" where
  "loop_y r d s2 yi st =
     (if yi < OS r ! 1
      then loop_y r d s2 (yi + 1)
             (loop_x r d (fst (snd d) + real_of_int yi * inc r ! 1) s2 0 st)
      else st)"
  by pat_completeness auto
termination
  by (relation "measure (\<lambda>(r, d, s2, yi, st). nat (OS r ! 1 - yi))") auto

declare loop_y.simps [simp del]

function loop_z :: "reslice \<Rightarrow> Vector3d \<Rightarrow> int \<Rightarrow> interp_t \<times> real \<Rightarrow> interp_t \<times> real" where
  "loop_z r d zi st =
     (if zi < OS r ! 2
      then loop_z r d (zi + 1)
             (loop_y r d (snd (snd d) + real_of_int zi * inc r ! 2) 0 st)
      else st)"
  by pat_completeness auto
termination
  by (relation "measure (\<lambda>(r, d, zi, st). nat (OS r ! 2 - zi))") auto

declare loop_z.simps [simp del]

text \<open>\<^verbatim>\<open>value() const\<close>: the value and the object afterwards (the interpolator has moved).
  Lines 149 and 163 store into the \<^verbatim>\<open>value_type\<close> variable \<^verbatim>\<open>result\<close>.\<close>

definition value_const :: "reslice \<Rightarrow> real \<times> reslice" where
  "value_const r =
     (if oversampling r then
        let d = (real_of_int (x r ! 0) + from' r ! 0,
                 real_of_int (x r ! 1) + from' r ! 1,
                 real_of_int (x r ! 2) + from' r ! 2);
            st = loop_z r d 0 (interp r, to_value_type (interp r) 0.0)
        in (to_value_type (fst st) (snd st * norm' r), r\<lparr>interp := fst st\<rparr>)
      else
        let it = interp_voxel (interp r)
                   (transform_apply (direct_transform r)
                      (real_of_int (x r ! 0), real_of_int (x r ! 1), real_of_int (x r ! 2)))
        in (interp_value it, r\<lparr>interp := it\<rparr>))"

text \<open>
  \<^verbatim>\<open>value()\<close>, the overload that is not const (line 170): it calls the const overload
  and has no \<^verbatim>\<open>return\<close> statement, so it hands no value back: \<open>None\<close>.
\<close>

definition value_nonconst :: "reslice \<Rightarrow> real option \<times> reslice" where
  "value_nonconst r = (let res = value_const r in (None, snd res))"

subsection \<open>The sub-samples of a voxel, in the spec's words\<close>

text \<open>What one queried position adds to the result: the source's value where the source
  reports the position valid, zero elsewhere.\<close>

definition contribution :: "interp_t \<Rightarrow> Vector3d \<Rightarrow> real" where
  "contribution it p = (if in_bounds it p then value_at it (idx it) p else 0)"

text \<open>The sub-offset on an axis with factor \<open>f\<close> and cursor \<open>c\<close> at sub-index \<open>k\<close>:
  cursor plus origin offset plus \<open>k\<close> increments, where the increment is \<open>1 / f\<close> and the
  origin offset is \<open>0.5 * (increment - 1)\<close>.\<close>

definition sub_offset :: "int \<Rightarrow> int \<Rightarrow> int \<Rightarrow> real" where
  "sub_offset f c k =
     real_of_int c + 0.5 * (1 / real_of_int f - 1) + real_of_int k * (1 / real_of_int f)"

text \<open>All sub-sample positions of the voxel at cursor \<open>c\<close>, mapped through the composed
  transform \<open>D\<close>, for the factors \<open>fs\<close>.\<close>

definition subsample_positions ::
  "transform_type \<Rightarrow> int list \<Rightarrow> int list \<Rightarrow> Vector3d list" where
  "subsample_positions D fs c =
     [transform_apply D (sub_offset (fs ! 0) (c ! 0) k0, sub_offset (fs ! 1) (c ! 1) k1,
                         sub_offset (fs ! 2) (c ! 2) k2).
        k2 \<leftarrow> [0..fs ! 2 - 1], k1 \<leftarrow> [0..fs ! 1 - 1], k0 \<leftarrow> [0..fs ! 0 - 1]]"

text \<open>The accumulation of the \<^verbatim>\<open>value_type\<close> variable \<^verbatim>\<open>result\<close> over a list of queried
  positions, for any value type.\<close>

definition accumulate :: "interp_t \<Rightarrow> Vector3d list \<Rightarrow> real \<Rightarrow> real" where
  "accumulate it ps res =
     fold (\<lambda>p acc. if in_bounds it p then to_value_type it (acc + value_at it (idx it) p)
                    else acc) ps res"

text \<open>The positions that the three loops of \<^verbatim>\<open>value()\<close> query, in the order of the
  queries, read off the members.\<close>

definition queried_positions :: "reslice \<Rightarrow> Vector3d list" where
  "queried_positions r =
     [transform_apply (direct_transform r)
        (real_of_int (x r ! 0) + from' r ! 0 + real_of_int k0 * inc r ! 0,
         real_of_int (x r ! 1) + from' r ! 1 + real_of_int k1 * inc r ! 1,
         real_of_int (x r ! 2) + from' r ! 2 + real_of_int k2 * inc r ! 2).
        k2 \<leftarrow> [0..OS r ! 2 - 1], k1 \<leftarrow> [0..OS r ! 1 - 1], k0 \<leftarrow> [0..OS r ! 0 - 1]]"

subsection \<open>Example objects\<close>

text \<open>A three-dimensional grid of \<open>n\<close> voxels of size \<open>s\<close> on each axis with the identity
  transform, and an interpolator of a floating-point value type over a header with a given
  validity region and value function.\<close>

definition grid :: "int \<Rightarrow> real \<Rightarrow> header" where
  "grid n s = \<lparr>hdr_ndim = 3, hdr_size = (\<lambda>_. n), hdr_voxsize = (\<lambda>_. s),
               hdr_transform = identity_transform, hdr_name = ''grid''\<rparr>"

definition source_on :: "header \<Rightarrow> (Vector3d \<Rightarrow> bool) \<Rightarrow> (Vector3d \<Rightarrow> real) \<Rightarrow> interp_t" where
  "source_on h ok f = \<lparr>image = h, in_bounds = ok, value_at = (\<lambda>_. f),
                       to_value_type = (\<lambda>v. v), pos = (0, 0, 0), idx = (\<lambda>_. 0), lookups = 0\<rparr>"

text \<open>A source of constant value 3 that is valid where the first coordinate is not
  negative, resliced onto a grid of twice the voxel size: with estimated factors, and with
  the explicit factors 1, 1, 1.\<close>

definition half_source :: interp_t where
  "half_source = source_on (grid 4 1) (\<lambda>p. 0 \<le> fst p) (\<lambda>_. 3)"

definition coarse_example :: reslice where
  "coarse_example = projr (Reslice half_source (grid 2 2) NoTransform AutoOverSample)"

definition plain_example :: reslice where
  "plain_example = projr (Reslice half_source (grid 2 2) NoTransform [1, 1, 1])"

text \<open>The same source as an image of an integer value type, resliced the same way.\<close>

definition integer_source :: interp_t where
  "integer_source = half_source\<lparr>to_value_type := (\<lambda>v. real_of_int (trunc_zero v))\<rparr>"

definition integer_example :: reslice where
  "integer_example = projr (Reslice integer_source (grid 2 2) NoTransform AutoOverSample)"

text \<open>A source that is valid nowhere and reports the value 3, resliced with explicit factors
  whose product is \<open>2 ^ 32\<close>.\<close>

definition void_source :: interp_t where
  "void_source = source_on (grid 4 1) (\<lambda>_. False) (\<lambda>_. 3)"

definition wrapped_example :: reslice where
  "wrapped_example = projr (Reslice void_source (grid 2 2) NoTransform [65536, 65536, 1])"

text \<open>The reslicing of \<open>coarse_example\<close> with the reference's voxel size on axis 0 reduced
  from 2 to 1, and with that voxel size at 3000000000.\<close>

definition finer_example :: reslice where
  "finer_example =
     projr (Reslice half_source ((grid 2 2)\<lparr>hdr_voxsize := (hdr_voxsize (grid 2 2))(0 := 1)\<rparr>)
              NoTransform AutoOverSample)"

definition huge_reference :: header where
  "huge_reference = (grid 2 2)\<lparr>hdr_voxsize := (hdr_voxsize (grid 2 2))(0 := 3000000000)\<rparr>"

definition huge_example :: reslice where
  "huge_example = projr (Reslice half_source huge_reference NoTransform AutoOverSample)"

text \<open>A source with fewer than three axes.\<close>

definition flat_source :: interp_t where
  "flat_source = source_on ((grid 4 1)\<lparr>hdr_ndim := 2\<rparr>) (\<lambda>_. True) (\<lambda>_. 3)"

text \<open>The end-to-end example of the spec. A header is the grid of \<open>n\<close> voxels of size \<open>s\<close>
  on each spatial axis with the identity transform.\<close>

definition is_grid :: "header \<Rightarrow> int \<Rightarrow> real \<Rightarrow> bool" where
  "is_grid h n s \<longleftrightarrow>
     3 \<le> hdr_ndim h \<and> hdr_size h 0 = n \<and> hdr_size h 1 = n \<and> hdr_size h 2 = n
     \<and> hdr_voxsize h 0 = s \<and> hdr_voxsize h 1 = s \<and> hdr_voxsize h 2 = s
     \<and> hdr_transform h = identity_transform"

text \<open>
  Modelled from the spec: the interpolator over a source volume in which every voxel has
  the value \<open>v\<close>, the interpolation kernels being absent from the sources. By the spec the
  Interpolated Source gives a value and a validity flag and reports a fallback value when
  it is queried outside its bounds: at a position of the valid region \<open>ok\<close> the value is
  \<open>v\<close>, at any other position it is the fallback \<open>oob\<close>. The value type is floating-point.
\<close>

definition constant_volume ::
  "header \<Rightarrow> (Vector3d \<Rightarrow> bool) \<Rightarrow> real \<Rightarrow> real \<Rightarrow> interp_t" where
  "constant_volume h ok v oob =
     \<lparr>image = h, in_bounds = ok, value_at = (\<lambda>_ p. if ok p then v else oob),
      to_value_type = (\<lambda>v. v), pos = (0, 0, 0), idx = (\<lambda>_. 0), lookups = 0\<rparr>"

text \<open>The positions whose nearest voxel is one of the \<open>n\<close> voxels of each axis.\<close>

fun inside :: "int \<Rightarrow> Vector3d \<Rightarrow> bool" where
  "inside n (p0, p1, p2) \<longleftrightarrow>
     - 0.5 \<le> p0 \<and> p0 < real_of_int n - 0.5 \<and> - 0.5 \<le> p1 \<and> p1 < real_of_int n - 0.5
     \<and> - 0.5 \<le> p2 \<and> p2 < real_of_int n - 0.5"

text \<open>The volume of 4 voxels per axis of constant value 3 with the fallback value 0,
  resliced onto the grid of 8 voxels of size 0.5.\<close>

definition boxed_source :: interp_t where
  "boxed_source = constant_volume (grid 4 1) (inside 4) 3 0"

definition fine_example :: reslice where
  "fine_example = projr (Reslice boxed_source (grid 8 (1 / 2)) NoTransform AutoOverSample)"

section \<open>Properties\<close>

subsection \<open>Machine integers\<close>

lemma wrap_int_id: "- 2147483648 \<le> v \<Longrightarrow> v \<le> 2147483647 \<Longrightarrow> wrap_int v = v"
  by (simp add: wrap_int_def)

lemma wrap_int_mult: "wrap_int (wrap_int a * c) = wrap_int (a * c)"
proof -
  have "(((a + 2147483648) mod 4294967296 - 2147483648) * c + 2147483648) mod 4294967296
      = (a * c + 2147483648) mod 4294967296"
  proof -
    have "((a + 2147483648) mod 4294967296 - 2147483648) mod 4294967296 = a mod 4294967296"
      by (simp add: mod_diff_left_eq)
    then have "(((a + 2147483648) mod 4294967296 - 2147483648) * c) mod 4294967296
        = (a * c) mod 4294967296"
      by (metis mod_mult_left_eq)
    then show ?thesis by (metis mod_add_left_eq)
  qed
  then show ?thesis by (simp add: wrap_int_def)
qed

lemma wrap_int_product:
  assumes "- 2147483648 \<le> a * b * c" and "a * b * c \<le> 2147483647"
  shows "wrap_int (wrap_int (a * b) * c) = a * b * c"
  using assms by (simp add: wrap_int_mult wrap_int_id)

lemma wrap_int_min_multiple: "wrap_int (- 2147483648 * m) \<le> 0"
proof -
  have "(- 2147483648 * m + 2147483648) = 2147483648 * (1 - m)" by (simp add: algebra_simps)
  moreover have "(2147483648 * (1 - m)) mod 4294967296 = 2147483648 * ((1 - m) mod 2)"
    using mult_mod_right[of 2147483648 "1 - m" 2] by simp
  moreover have "(1 - m) mod 2 \<le> 1" by (simp add: pos_mod_bound zle_diff1_eq [symmetric]) 
  ultimately show ?thesis by (simp add: wrap_int_def)
qed

lemma double_to_int_range:
  "- 2147483648 \<le> double_to_int v \<and> double_to_int v \<le> 2147483647"
  by (simp add: double_to_int_def)

lemma double_to_int_of_int:
  "0 \<le> n \<Longrightarrow> n \<le> 2147483647 \<Longrightarrow> double_to_int (real_of_int n) = n"
  by (simp add: double_to_int_def trunc_zero_def)

lemma double_to_int_sign:
  "0 \<le> v \<Longrightarrow> 0 \<le> double_to_int v \<or> double_to_int v = - 2147483648"
  by (simp add: double_to_int_def trunc_zero_def)


subsection \<open>The loops of \<^verbatim>\<open>value()\<close> as an accumulation\<close>

lemma accumulate_append:
  "accumulate it (ps @ qs) res = accumulate it qs (accumulate it ps res)"
  by (simp add: accumulate_def)

lemma accumulate_Cons:
  "accumulate it (p # ps) res =
     accumulate it ps (if in_bounds it p then to_value_type it (res + value_at it (idx it) p)
                       else res)"
  by (simp add: accumulate_def)

lemma accumulate_Nil: "accumulate it [] res = res"
  by (simp add: accumulate_def)

lemma accumulate_depends_on:
  assumes "in_bounds it' = in_bounds it" and "value_at it' = value_at it"
    and "idx it' = idx it" and "to_value_type it' = to_value_type it"
  shows "accumulate it' = accumulate it"
proof (rule ext, rule ext)
  fix ps res
  show "accumulate it' ps res = accumulate it ps res"
    by (induction ps arbitrary: res) (simp_all add: accumulate_Cons accumulate_Nil assms)
qed

lemma accumulate_voxel: "accumulate (interp_voxel it p) = accumulate it"
  by (rule accumulate_depends_on) (simp_all add: interp_voxel_def)

lemma sample_snd:
  "snd (sample r s st) =
     accumulate (fst st) [transform_apply (direct_transform r) s] (snd st)"
  by (simp add: sample_def Let_def interp_not_def interp_value_def interp_voxel_def
      accumulate_def)

lemma sample_fst:
  "accumulate (fst (sample r s st)) = accumulate (fst st)"
  "to_value_type (fst (sample r s st)) = to_value_type (fst st)"
  by (simp_all add: sample_def Let_def accumulate_voxel) (simp_all add: interp_voxel_def)

lemma loop_x_acc:
  "snd (loop_x r d s1 s2 xi st) =
     accumulate (fst st)
       (map (\<lambda>k. transform_apply (direct_transform r) (fst d + real_of_int k * inc r ! 0, s1, s2))
          [xi..OS r ! 0 - 1]) (snd st)
   \<and> accumulate (fst (loop_x r d s1 s2 xi st)) = accumulate (fst st)
   \<and> to_value_type (fst (loop_x r d s1 s2 xi st)) = to_value_type (fst st)"
proof (induction r d s1 s2 xi st rule: loop_x.induct)
  case (1 r d s1 s2 xi st)
  show ?case
  proof (cases "xi < OS r ! 0")
    case True
    then have u: "[xi..OS r ! 0 - 1] = xi # [xi + 1..OS r ! 0 - 1]"
      by (simp add: upto_rec1)
    from True 1 show ?thesis
      by (simp add: loop_x.simps[of r d s1 s2 xi st] u sample_snd sample_fst
          accumulate_Cons accumulate_Nil)
  next
    case False
    then show ?thesis by (simp add: loop_x.simps[of r d s1 s2 xi st] accumulate_Nil)
  qed
qed

lemma loop_y_acc:
  "snd (loop_y r d s2 yi st) =
     accumulate (fst st)
       (concat (map (\<lambda>k1. map (\<lambda>k0. transform_apply (direct_transform r)
                  (fst d + real_of_int k0 * inc r ! 0,
                   fst (snd d) + real_of_int k1 * inc r ! 1, s2)) [0..OS r ! 0 - 1])
          [yi..OS r ! 1 - 1])) (snd st)
   \<and> accumulate (fst (loop_y r d s2 yi st)) = accumulate (fst st)
   \<and> to_value_type (fst (loop_y r d s2 yi st)) = to_value_type (fst st)"
proof (induction r d s2 yi st rule: loop_y.induct)
  case (1 r d s2 yi st)
  show ?case
  proof (cases "yi < OS r ! 1")
    case True
    then have u: "[yi..OS r ! Suc 0 - 1] = yi # [yi + 1..OS r ! Suc 0 - 1]"
      by (simp add: upto_rec1)
    from True 1 show ?thesis
      by (simp add: loop_y.simps[of r d s2 yi st] u loop_x_acc accumulate_append)
  next
    case False
    then show ?thesis by (simp add: loop_y.simps[of r d s2 yi st] accumulate_Nil)
  qed
qed

lemma loop_z_acc:
  "snd (loop_z r d zi st) =
     accumulate (fst st)
       (concat (map (\<lambda>k2. concat (map (\<lambda>k1. map (\<lambda>k0. transform_apply (direct_transform r)
                  (fst d + real_of_int k0 * inc r ! 0,
                   fst (snd d) + real_of_int k1 * inc r ! 1,
                   snd (snd d) + real_of_int k2 * inc r ! 2)) [0..OS r ! 0 - 1])
          [0..OS r ! 1 - 1])) [zi..OS r ! 2 - 1])) (snd st)
   \<and> accumulate (fst (loop_z r d zi st)) = accumulate (fst st)
   \<and> to_value_type (fst (loop_z r d zi st)) = to_value_type (fst st)"
proof (induction r d zi st rule: loop_z.induct)
  case (1 r d zi st)
  show ?case
  proof (cases "zi < OS r ! 2")
    case True
    then have u: "[zi..OS r ! 2 - 1] = zi # [zi + 1..OS r ! 2 - 1]"
      by (simp add: upto_rec1)
    from True 1 show ?thesis
      by (simp add: loop_z.simps[of r d zi st] u loop_y_acc accumulate_append)
  next
    case False
    then show ?thesis by (simp add: loop_z.simps[of r d zi st] accumulate_Nil)
  qed
qed

lemma value_const_oversampling:
  assumes "oversampling r"
  shows "fst (value_const r) =
           to_value_type (interp r)
             (accumulate (interp r) (queried_positions r) (to_value_type (interp r) 0)
                * norm' r)"
  using assms
  by (simp add: value_const_def Let_def loop_z_acc queried_positions_def)

lemma accumulate_floating:
  assumes "to_value_type it = (\<lambda>v. v)"
  shows "accumulate it ps res = res + sum_list (map (contribution it) ps)"
  using assms
  by (induction ps arbitrary: res) (simp_all add: accumulate_Cons accumulate_Nil contribution_def)

text \<open>The const overload is a function of the cursor, the oversampling plan, the composed
  mapping and the wrapped source (its kernel, its value type and the indices of its
  non-spatial axes): the position the interpolator was left at, the count of its queries
  and the other members do not enter.\<close>

lemma value_const_depends_on:
  assumes "x r' = x r" and "oversampling r' = oversampling r" and "OS r' = OS r"
    and "from' r' = from' r" and "inc r' = inc r" and "norm' r' = norm' r"
    and "direct_transform r' = direct_transform r"
    and "in_bounds (interp r') = in_bounds (interp r)"
    and "value_at (interp r') = value_at (interp r)"
    and "idx (interp r') = idx (interp r)"
    and "to_value_type (interp r') = to_value_type (interp r)"
  shows "fst (value_const r') = fst (value_const r)"
proof (cases "oversampling r")
  case True
  have q: "queried_positions r' = queried_positions r"
    by (simp add: queried_positions_def assms(1-7))
  have a: "accumulate (interp r') = accumulate (interp r)"
    using assms(8-11) by (rule accumulate_depends_on)
  show ?thesis
    using True assms(2) by (simp add: value_const_oversampling q a assms(6,11))
next
  case False
  then show ?thesis
    using assms(2)
    by (simp add: value_const_def Let_def interp_voxel_def interp_value_def assms(1,7,9,10))
qed

lemma sum_list_concat_map:
  "sum_list (map f (concat (map g xs))) = (\<Sum>a\<leftarrow>xs. sum_list (map f (g a)))"
  by (induction xs) simp_all

lemma length_concat_const:
  "(\<And>a. a \<in> set xs \<Longrightarrow> length (g a) = n) \<Longrightarrow> length (concat (map g xs)) = length xs * n"
  by (induction xs) simp_all

lemma subsample_count:
  "0 \<le> fs ! 0 \<Longrightarrow> 0 \<le> fs ! 1 \<Longrightarrow> 0 \<le> fs ! 2 \<Longrightarrow>
   int (length (subsample_positions D fs c)) = fs ! 0 * fs ! 1 * fs ! 2"
  unfolding subsample_positions_def
  apply (subst length_concat_const[where n = "nat (fs ! 1) * nat (fs ! 0)"])
   apply (subst length_concat_const[where n = "nat (fs ! 0)"])
    apply simp
   apply simp
  apply (simp add: nat_mult_distrib)
  done


subsection \<open>What the constructor establishes\<close>

lemma ceil_estimate_nonneg: "0 \<le> ceil_estimate D e"
proof -
  obtain a b c where v: "vec_sub (transform_apply D (0, 0, 0)) (transform_apply D e) = (a, b, c)"
    by (metis prod_cases3)
  have "0 \<le> 0.999 * vec_norm (a, b, c)" by simp
  then have "\<lceil>0::real\<rceil> \<le> \<lceil>0.999 * vec_norm (a, b, c)\<rceil>" by (rule ceiling_mono)
  then show ?thesis
    unfolding ceil_estimate_def Let_def v by simp
qed

lemma estimate_factor_sign:
  "0 \<le> estimate_factor D e \<or> estimate_factor D e = - 2147483648"
  unfolding estimate_factor_def using ceil_estimate_nonneg by (rule double_to_int_sign)

lemma oversample_factors_sign:
  assumes "oversample_factors D ov = Inr os"
  shows "length os = 3"
    and "0 \<le> os ! 0 \<or> os ! 0 = - 2147483648"
    and "0 \<le> os ! 1 \<or> os ! 1 = - 2147483648"
    and "0 \<le> os ! 2 \<or> os ! 2 = - 2147483648"
  using assms estimate_factor_sign[of D "(1, 0, 0)"] estimate_factor_sign[of D "(0, 1, 0)"]
    estimate_factor_sign[of D "(0, 0, 1)"]
  by (auto simp: oversample_factors_def split: if_splits)

lemma flag_positive:
  assumes f: "1 < wrap_int (wrap_int (a * b) * c)"
    and a: "0 \<le> a \<or> a = - 2147483648"
    and b: "0 \<le> b \<or> b = - 2147483648"
    and c: "0 \<le> c \<or> c = - 2147483648"
  shows "1 \<le> a \<and> 1 \<le> b \<and> 1 \<le> c"
proof -
  have w: "1 < wrap_int (a * b * c)" using f by (simp add: wrap_int_mult)
  have na: "a \<noteq> - 2147483648"
  proof
    assume "a = - 2147483648"
    then have "a * b * c = - 2147483648 * (b * c)" by simp
    then show False using w wrap_int_min_multiple[of "b * c"] by simp
  qed
  have nb: "b \<noteq> - 2147483648"
  proof
    assume "b = - 2147483648"
    then have "a * b * c = - 2147483648 * (a * c)" by simp
    then show False using w wrap_int_min_multiple[of "a * c"] by simp
  qed
  have nc: "c \<noteq> - 2147483648"
  proof
    assume "c = - 2147483648"
    then have "a * b * c = - 2147483648 * (a * b)" by simp
    then show False using w wrap_int_min_multiple[of "a * b"] by simp
  qed
  have z: "a \<noteq> 0 \<and> b \<noteq> 0 \<and> c \<noteq> 0"
    using w by (auto simp: wrap_int_def)
  show ?thesis using a b c na nb nc z by linarith
qed

lemma Reslice_Inr:
  assumes "Reslice it reference T ov = Inr r"
  shows "interp r = it" and "x r = [0, 0, 0]"
    and "dim r = [hdr_size reference 0, hdr_size reference 1, hdr_size reference 2]"
    and "vox r = [hdr_voxsize reference 0, hdr_voxsize reference 1, hdr_voxsize reference 2]"
    and "transform' r = hdr_transform reference"
    and "direct_transform r = composed it reference T"
    and "oversample_factors (composed it reference T) ov = Inr (OS r)"
    and "oversampling r = (wrap_int (wrap_int (OS r ! 0 * OS r ! 1) * OS r ! 2) > 1)"
    and "3 \<le> hdr_ndim (image it)"
  using assms
  by (auto simp: Reslice_def Let_def split: if_splits sum.splits)

lemma Reslice_plan:
  assumes "Reslice it reference T ov = Inr r" and "oversampling r"
  shows "inc r = [1 / real_of_int (OS r ! 0), 1 / real_of_int (OS r ! 1), 1 / real_of_int (OS r ! 2)]"
    and "from' r = [0.5 * (1 / real_of_int (OS r ! 0) - 1), 0.5 * (1 / real_of_int (OS r ! 1) - 1),
                    0.5 * (1 / real_of_int (OS r ! 2) - 1)]"
    and "norm' r = 1 / (real_of_int (OS r ! 0) * real_of_int (OS r ! 1) * real_of_int (OS r ! 2))"
  using assms
  by (auto simp: Reslice_def Let_def split: if_splits sum.splits)

lemma Reslice_oversampling_factors:
  assumes "Reslice it reference T ov = Inr r" and "oversampling r"
  shows "1 \<le> OS r ! 0 \<and> 1 \<le> OS r ! 1 \<and> 1 \<le> OS r ! 2"
proof -
  note s = oversample_factors_sign[OF Reslice_Inr(7)[OF assms(1)]]
  have "1 < wrap_int (wrap_int (OS r ! 0 * OS r ! 1) * OS r ! 2)"
    using Reslice_Inr(8)[OF assms(1)] assms(2) by simp
  then show ?thesis using s(2) s(3) s(4) by (rule flag_positive)
qed

lemma Reslice_oversampling_of_product:
  assumes "Reslice it reference T ov = Inr r"
    and "1 < OS r ! 0 * OS r ! 1 * OS r ! 2" and "OS r ! 0 * OS r ! 1 * OS r ! 2 \<le> 2147483647"
  shows "oversampling r"
  using Reslice_Inr(8)[OF assms(1)] assms(2,3) by (simp add: wrap_int_product)

lemma Reslice_queried_positions:
  assumes "Reslice it reference T ov = Inr r" and "oversampling r"
  shows "queried_positions (r\<lparr>x := [c0, c1, c2]\<rparr>) =
           subsample_positions (direct_transform r) (OS r) [c0, c1, c2]"
  by (simp add: queried_positions_def subsample_positions_def sub_offset_def
      Reslice_plan[OF assms] algebra_simps)

lemma value_const_oversampled_sum:
  assumes R: "Reslice it reference T ov = Inr r" and O: "oversampling r"
    and F: "to_value_type it = (\<lambda>v. v)"
  shows "fst (value_const (r\<lparr>x := [c0, c1, c2]\<rparr>)) =
     sum_list (map (contribution it) (subsample_positions (direct_transform r) (OS r) [c0, c1, c2]))
       * (1 / real_of_int (OS r ! 0 * OS r ! 1 * OS r ! 2))"
proof -
  let ?r = "r\<lparr>x := [c0, c1, c2]\<rparr>"
  have ov: "oversampling ?r" using O by simp
  have i: "interp ?r = it" using Reslice_Inr(1)[OF R] by simp
  have n: "norm' ?r = 1 / real_of_int (OS r ! 0 * OS r ! 1 * OS r ! 2)"
    using Reslice_plan(3)[OF R O] by simp
  show ?thesis
    unfolding value_const_oversampling[OF ov] i Reslice_queried_positions[OF R O] n
    by (simp add: accumulate_floating[OF F] F)
qed

lemma subsample_count_oversampling:
  assumes "Reslice it reference T ov = Inr r" and "oversampling r"
  shows "int (length (subsample_positions (direct_transform r) (OS r) c)) =
           OS r ! 0 * OS r ! 1 * OS r ! 2"
  using Reslice_oversampling_factors[OF assms] by (simp add: subsample_count)

subsection \<open>The example objects evaluated\<close>

lemma Reslice_eval:
  assumes "3 \<le> hdr_ndim (image it)" and "composed it reference T = D"
    and "oversample_factors D ov = Inr os"
  shows "Reslice it reference T ov = Inr (projr (Reslice it reference T ov))"
    and "OS (projr (Reslice it reference T ov)) = os"
    and "direct_transform (projr (Reslice it reference T ov)) = D"
    and "interp (projr (Reslice it reference T ov)) = it"
    and "oversampling (projr (Reslice it reference T ov)) =
           (1 < wrap_int (wrap_int (os ! 0 * os ! 1) * os ! 2))"
  using assms by (simp_all add: Reslice_def Let_def)

lemmas composed_defs = composed_def Transform_def transform_scale_def transform_inverse_def
  transform_mul_def transform_apply_def NoTransform_def identity_transform_def
  identity_matrix_def grid_def source_on_def Let_def

lemma estimate_diagonal:
  "estimate_factor \<lparr>linear = ((a, 0, 0), (0, b, 0), (0, 0, c)), translation = t\<rparr> (1, 0, 0)
     = double_to_int (real_of_int \<lceil>0.999 * \<bar>a\<bar>\<rceil>)"
  "estimate_factor \<lparr>linear = ((a, 0, 0), (0, b, 0), (0, 0, c)), translation = t\<rparr> (0, 1, 0)
     = double_to_int (real_of_int \<lceil>0.999 * \<bar>b\<bar>\<rceil>)"
  "estimate_factor \<lparr>linear = ((a, 0, 0), (0, b, 0), (0, 0, c)), translation = t\<rparr> (0, 0, 1)
     = double_to_int (real_of_int \<lceil>0.999 * \<bar>c\<bar>\<rceil>)"
  by (cases t; simp add: estimate_factor_def ceil_estimate_def transform_apply_def Let_def)+

lemma factors_diagonal:
  "oversample_factors \<lparr>linear = ((a, 0, 0), (0, b, 0), (0, 0, c)), translation = t\<rparr>
     AutoOverSample =
   Inr [double_to_int (real_of_int \<lceil>0.999 * \<bar>a\<bar>\<rceil>),
        double_to_int (real_of_int \<lceil>0.999 * \<bar>b\<bar>\<rceil>),
        double_to_int (real_of_int \<lceil>0.999 * \<bar>c\<bar>\<rceil>)]"
  by (simp add: oversample_factors_def AutoOverSample_def estimate_diagonal)

lemma factors_explicit:
  "1 \<le> a \<Longrightarrow> 1 \<le> b \<Longrightarrow> 1 \<le> c \<Longrightarrow> oversample_factors D [a, b, c] = Inr [a, b, c]"
  by (simp add: oversample_factors_def)

lemma double_to_int_values:
  "double_to_int 2 = 2" "double_to_int 1 = 1" "double_to_int 2997000000 = - 2147483648"
  by (simp_all add: double_to_int_def trunc_zero_def)

lemma half_source_ndim: "3 \<le> hdr_ndim (image half_source)"
  by (simp add: half_source_def source_on_def grid_def)

lemma composed_coarse:
  "composed half_source (grid 2 2) NoTransform =
     \<lparr>linear = ((2, 0, 0), (0, 2, 0), (0, 0, 2)), translation = (0, 0, 0)\<rparr>"
  by (simp add: half_source_def composed_defs)

lemma factors_coarse:
  "oversample_factors \<lparr>linear = ((2, 0, 0), (0, 2, 0), (0, 0, 2)), translation = (0, 0, 0)\<rparr>
     AutoOverSample = Inr [2, 2, 2]"
  by (simp add: factors_diagonal double_to_int_values)

lemma coarse_example_ok:
  "Reslice half_source (grid 2 2) NoTransform AutoOverSample = Inr coarse_example"
  unfolding coarse_example_def
  by (rule Reslice_eval(1)[OF half_source_ndim composed_coarse factors_coarse])

lemma coarse_example_fields:
  "OS coarse_example = [2, 2, 2]"
  "direct_transform coarse_example =
     \<lparr>linear = ((2, 0, 0), (0, 2, 0), (0, 0, 2)), translation = (0, 0, 0)\<rparr>"
  "oversampling coarse_example"
  "interp coarse_example = half_source"
  unfolding coarse_example_def
  using Reslice_eval(2-5)[OF half_source_ndim composed_coarse factors_coarse]
  by (simp_all add: wrap_int_def)

lemma positions_coarse:
  "subsample_positions \<lparr>linear = ((2, 0, 0), (0, 2, 0), (0, 0, 2)), translation = (0, 0, 0)\<rparr> [2, 2, 2] [0, 0, 0]
    = [(-1/2, -1/2, -1/2), (1/2, -1/2, -1/2), (-1/2, 1/2, -1/2), (1/2, 1/2, -1/2),
       (-1/2, -1/2, 1/2), (1/2, -1/2, 1/2), (-1/2, 1/2, 1/2), (1/2, 1/2, 1/2)]"
  by (simp add: subsample_positions_def sub_offset_def transform_apply_def upto.simps)

lemma plain_example_ok:
  "Reslice half_source (grid 2 2) NoTransform [1, 1, 1] = Inr plain_example"
  unfolding plain_example_def
  by (rule Reslice_eval(1)[OF half_source_ndim composed_coarse]) (simp add: factors_explicit)

lemma plain_example_fields:
  "direct_transform plain_example =
     \<lparr>linear = ((2, 0, 0), (0, 2, 0), (0, 0, 2)), translation = (0, 0, 0)\<rparr>"
  unfolding plain_example_def
  by (rule Reslice_eval(3)[OF half_source_ndim composed_coarse]) (simp add: factors_explicit)

lemma integer_source_ndim: "3 \<le> hdr_ndim (image integer_source)"
  by (simp add: integer_source_def half_source_def source_on_def grid_def)

lemma composed_integer:
  "composed integer_source (grid 2 2) NoTransform =
     \<lparr>linear = ((2, 0, 0), (0, 2, 0), (0, 0, 2)), translation = (0, 0, 0)\<rparr>"
  by (simp add: integer_source_def half_source_def composed_defs)

lemma integer_example_ok:
  "Reslice integer_source (grid 2 2) NoTransform AutoOverSample = Inr integer_example"
  unfolding integer_example_def
  by (rule Reslice_eval(1)[OF integer_source_ndim composed_integer factors_coarse])

lemma integer_example_fields:
  "OS integer_example = [2, 2, 2]"
  "direct_transform integer_example =
     \<lparr>linear = ((2, 0, 0), (0, 2, 0), (0, 0, 2)), translation = (0, 0, 0)\<rparr>"
  "oversampling integer_example"
  "interp integer_example = integer_source"
  unfolding integer_example_def
  using Reslice_eval(2-5)[OF integer_source_ndim composed_integer factors_coarse]
  by (simp_all add: wrap_int_def)

lemma integer_example_value:
  "fst (value_const (integer_example\<lparr>x := [0, 0, 0]\<rparr>)) = 1"
proof -
  have q: "queried_positions (integer_example\<lparr>x := [0, 0, 0]\<rparr>) =
      [(-1/2, -1/2, -1/2), (1/2, -1/2, -1/2), (-1/2, 1/2, -1/2), (1/2, 1/2, -1/2),
       (-1/2, -1/2, 1/2), (1/2, -1/2, 1/2), (-1/2, 1/2, 1/2), (1/2, 1/2, 1/2)]"
    using Reslice_queried_positions[OF integer_example_ok integer_example_fields(3), of 0 0 0]
    by (simp add: integer_example_fields positions_coarse)
  have o: "oversampling (integer_example\<lparr>x := [0, 0, 0]\<rparr>)"
    by (simp add: integer_example_fields)
  have n: "norm' integer_example = 1 / 8"
    using Reslice_plan(3)[OF integer_example_ok integer_example_fields(3)]
    by (simp add: integer_example_fields)
  show ?thesis
    unfolding value_const_oversampling[OF o] q
    by (simp add: integer_example_fields n accumulate_Cons accumulate_Nil integer_source_def
        half_source_def source_on_def trunc_zero_def)
qed

lemma void_source_ndim: "3 \<le> hdr_ndim (image void_source)"
  by (simp add: void_source_def source_on_def grid_def)

lemma composed_void:
  "composed void_source (grid 2 2) NoTransform =
     \<lparr>linear = ((2, 0, 0), (0, 2, 0), (0, 0, 2)), translation = (0, 0, 0)\<rparr>"
  by (simp add: void_source_def composed_defs)

lemma wrapped_example_ok:
  "Reslice void_source (grid 2 2) NoTransform [65536, 65536, 1] = Inr wrapped_example"
  unfolding wrapped_example_def
  by (rule Reslice_eval(1)[OF void_source_ndim composed_void]) (simp add: factors_explicit)

lemma wrapped_example_fields:
  "OS wrapped_example = [65536, 65536, 1]"
  "direct_transform wrapped_example =
     \<lparr>linear = ((2, 0, 0), (0, 2, 0), (0, 0, 2)), translation = (0, 0, 0)\<rparr>"
  "\<not> oversampling wrapped_example"
  "interp wrapped_example = void_source"
proof -
  have f: "oversample_factors
      \<lparr>linear = ((2, 0, 0), (0, 2, 0), (0, 0, 2)), translation = (0, 0, 0)\<rparr> [65536, 65536, 1]
      = Inr [65536, 65536, 1]"
    by (simp add: factors_explicit)
  show "OS wrapped_example = [65536, 65536, 1]"
    "direct_transform wrapped_example =
     \<lparr>linear = ((2, 0, 0), (0, 2, 0), (0, 0, 2)), translation = (0, 0, 0)\<rparr>"
    "\<not> oversampling wrapped_example"
    "interp wrapped_example = void_source"
    unfolding wrapped_example_def
    using Reslice_eval(2-5)[OF void_source_ndim composed_void f]
    by (simp_all add: wrap_int_def)
qed

lemma void_source_sum: "sum_list (map (contribution void_source) ps) = 0"
  by (induction ps) (simp_all add: contribution_def void_source_def source_on_def)


lemma composed_finer:
  "composed half_source ((grid 2 2)\<lparr>hdr_voxsize := (hdr_voxsize (grid 2 2))(0 := 1)\<rparr>) NoTransform =
     \<lparr>linear = ((1, 0, 0), (0, 2, 0), (0, 0, 2)), translation = (0, 0, 0)\<rparr>"
  by (simp add: half_source_def composed_defs)

lemma factors_finer:
  "oversample_factors \<lparr>linear = ((1, 0, 0), (0, 2, 0), (0, 0, 2)), translation = (0, 0, 0)\<rparr>
     AutoOverSample = Inr [1, 2, 2]"
  by (simp add: factors_diagonal double_to_int_values)

lemma finer_example_ok:
  "Reslice half_source ((grid 2 2)\<lparr>hdr_voxsize := (hdr_voxsize (grid 2 2))(0 := 1)\<rparr>)
     NoTransform AutoOverSample = Inr finer_example"
  unfolding finer_example_def
  by (rule Reslice_eval(1)[OF half_source_ndim composed_finer factors_finer])

lemma finer_example_fields: "OS finer_example = [1, 2, 2]"
  unfolding finer_example_def
  by (rule Reslice_eval(2)[OF half_source_ndim composed_finer factors_finer])

lemma composed_huge:
  "composed half_source huge_reference NoTransform =
     \<lparr>linear = ((3000000000, 0, 0), (0, 2, 0), (0, 0, 2)), translation = (0, 0, 0)\<rparr>"
  by (simp add: half_source_def huge_reference_def composed_defs)

lemma factors_huge:
  "oversample_factors
     \<lparr>linear = ((3000000000, 0, 0), (0, 2, 0), (0, 0, 2)), translation = (0, 0, 0)\<rparr>
     AutoOverSample = Inr [- 2147483648, 2, 2]"
  by (simp add: factors_diagonal double_to_int_values)

lemma huge_example_ok:
  "Reslice half_source huge_reference NoTransform AutoOverSample = Inr huge_example"
  unfolding huge_example_def
  by (rule Reslice_eval(1)[OF half_source_ndim composed_huge factors_huge])

lemma huge_example_fields:
  "OS huge_example = [- 2147483648, 2, 2]"
  "direct_transform huge_example =
     \<lparr>linear = ((3000000000, 0, 0), (0, 2, 0), (0, 0, 2)), translation = (0, 0, 0)\<rparr>"
  unfolding huge_example_def
  using Reslice_eval(2,3)[OF half_source_ndim composed_huge factors_huge] by simp_all

lemma boxed_source_ndim: "3 \<le> hdr_ndim (image boxed_source)"
  by (simp add: boxed_source_def constant_volume_def grid_def)

lemma composed_fine:
  "composed boxed_source (grid 8 (1 / 2)) NoTransform =
     \<lparr>linear = ((1 / 2, 0, 0), (0, 1 / 2, 0), (0, 0, 1 / 2)), translation = (0, 0, 0)\<rparr>"
  by (simp add: boxed_source_def constant_volume_def composed_defs)

lemma factors_fine:
  "oversample_factors
     \<lparr>linear = ((1 / 2, 0, 0), (0, 1 / 2, 0), (0, 0, 1 / 2)), translation = (0, 0, 0)\<rparr>
     AutoOverSample = Inr [1, 1, 1]"
  by (simp add: factors_diagonal double_to_int_values)

lemma fine_example_ok:
  "Reslice boxed_source (grid 8 (1 / 2)) NoTransform AutoOverSample = Inr fine_example"
  unfolding fine_example_def
  by (rule Reslice_eval(1)[OF boxed_source_ndim composed_fine factors_fine])

lemma fine_example_fields:
  "OS fine_example = [1, 1, 1]"
  "direct_transform fine_example =
     \<lparr>linear = ((1 / 2, 0, 0), (0, 1 / 2, 0), (0, 0, 1 / 2)), translation = (0, 0, 0)\<rparr>"
  "\<not> oversampling fine_example"
  "interp fine_example = boxed_source"
  unfolding fine_example_def
  using Reslice_eval(2-5)[OF boxed_source_ndim composed_fine factors_fine]
  by (simp_all add: wrap_int_def)

subsection \<open>\<^verbatim>\<open>value()\<close> with and without oversampling\<close>

lemma sum_contribution_constant:
  assumes "\<forall>p\<in>set ps. in_bounds it p \<longrightarrow> value_at it (idx it) p = V"
  shows "sum_list (map (contribution it) ps) = V * real (length (filter (in_bounds it) ps))"
  using assms by (induction ps) (simp_all add: contribution_def algebra_simps)

lemma half_valid:
  assumes "2 * length (filter (\<lambda>p. \<not> P p) ps) = length ps"
  shows "2 * length (filter P ps) = length ps"
  using assms sum_length_filter_compl[of P ps] by simp

text \<open>
  C1. The spec says that, whenever the product of the three factors exceeds 1, \<^verbatim>\<open>value()\<close>
  is the zero-filled sum over all sub-sample positions times one over the product. Two
  inputs show otherwise. Over an image of an integer value type, with the factors 2, 2, 2
  and four valid sub-samples of value 3, that quantity is 3 / 2 and \<^verbatim>\<open>value()\<close> is 1, the
  truncation stored into the \<^verbatim>\<open>value_type\<close> result. With the explicit factors 65536, 65536,
  1 the product is \<open>2 ^ 32\<close>, the \<^verbatim>\<open>int\<close> product of line 118 wraps to 0, oversampling stays
  off and \<^verbatim>\<open>value()\<close> is the one value 3 the source reports, where the zero-filled sum over
  a source that is valid nowhere is 0.
\<close>

theorem value_oversampled_fails:
  "Reslice integer_source (grid 2 2) NoTransform AutoOverSample = Inr integer_example
   \<and> OS integer_example ! 0 * OS integer_example ! 1 * OS integer_example ! 2 = 8
   \<and> sum_list (map (contribution integer_source)
        (subsample_positions (direct_transform integer_example) (OS integer_example) [0, 0, 0]))
        * (1 / real_of_int (OS integer_example ! 0 * OS integer_example ! 1 * OS integer_example ! 2))
      = 3 / 2
   \<and> fst (value_const (integer_example\<lparr>x := [0, 0, 0]\<rparr>)) = 1
   \<and> Reslice void_source (grid 2 2) NoTransform [65536, 65536, 1] = Inr wrapped_example
   \<and> OS wrapped_example ! 0 * OS wrapped_example ! 1 * OS wrapped_example ! 2 = 4294967296
   \<and> sum_list (map (contribution void_source)
        (subsample_positions (direct_transform wrapped_example) (OS wrapped_example) [0, 0, 0]))
        * (1 / real_of_int (OS wrapped_example ! 0 * OS wrapped_example ! 1 * OS wrapped_example ! 2))
      = 0
   \<and> fst (value_const (wrapped_example\<lparr>x := [0, 0, 0]\<rparr>)) = 3
   \<and> lookups (interp (snd (value_const (wrapped_example\<lparr>x := [0, 0, 0]\<rparr>)))) = 1"
proof -
  have a: "sum_list (map (contribution integer_source)
        (subsample_positions (direct_transform integer_example) (OS integer_example) [0, 0, 0]))
        * (1 / real_of_int (OS integer_example ! 0 * OS integer_example ! 1 * OS integer_example ! 2))
      = 3 / 2"
    by (simp add: integer_example_fields positions_coarse contribution_def integer_source_def
        half_source_def source_on_def)
  have b: "fst (value_const (wrapped_example\<lparr>x := [0, 0, 0]\<rparr>)) = 3
     \<and> lookups (interp (snd (value_const (wrapped_example\<lparr>x := [0, 0, 0]\<rparr>)))) = 1"
    by (simp add: value_const_def Let_def wrapped_example_fields interp_voxel_def
        interp_value_def void_source_def source_on_def)
  show ?thesis
    using integer_example_ok wrapped_example_ok a b integer_example_value
    by (simp add: void_source_sum integer_example_fields(1) wrapped_example_fields(1))
qed

text \<open>
  C1, as amended. On an object the constructor returns over an image of a floating-point
  value type, at every cursor position, when the product of the three factors exceeds 1
  and fits in an \<^verbatim>\<open>int\<close>, \<^verbatim>\<open>value()\<close> is the sum, over all sub-sample positions (there are as
  many as the product of the factors), of the source's value where the source reports the
  position valid and of zero elsewhere, times one over the product of the factors: the
  total number of sub-samples, not the number of valid ones. The interpolator \<open>it\<close> handed
  to the constructor is arbitrary, so this covers the object in every later state of its
  interpolator as well.
\<close>

theorem value_oversampled:
  assumes "Reslice it reference T ov = Inr r"
    and "1 < OS r ! 0 * OS r ! 1 * OS r ! 2"
    and "OS r ! 0 * OS r ! 1 * OS r ! 2 \<le> 2147483647"
    and "to_value_type it = (\<lambda>v. v)"
  shows "fst (value_const (r\<lparr>x := [c0, c1, c2]\<rparr>)) =
           sum_list (map (contribution it)
                      (subsample_positions (direct_transform r) (OS r) [c0, c1, c2]))
             * (1 / real_of_int (OS r ! 0 * OS r ! 1 * OS r ! 2))
       \<and> int (length (subsample_positions (direct_transform r) (OS r) [c0, c1, c2])) =
           OS r ! 0 * OS r ! 1 * OS r ! 2"
proof -
  have o: "oversampling r" using assms(1-3) by (rule Reslice_oversampling_of_product)
  show ?thesis
    using value_const_oversampled_sum[OF assms(1) o assms(4), of c0 c1 c2]
      subsample_count_oversampling[OF assms(1) o, of "[c0, c1, c2]"]
    by simp
qed

theorem value_oversampled_witness:
  "Reslice half_source (grid 2 2) NoTransform AutoOverSample = Inr coarse_example
   \<and> 1 < OS coarse_example ! 0 * OS coarse_example ! 1 * OS coarse_example ! 2
   \<and> OS coarse_example ! 0 * OS coarse_example ! 1 * OS coarse_example ! 2 \<le> 2147483647
   \<and> to_value_type half_source = (\<lambda>v. v)
   \<and> fst (value_const (coarse_example\<lparr>x := [0, 0, 0]\<rparr>)) = 3 / 2
   \<and> length (subsample_positions (direct_transform coarse_example) (OS coarse_example) [0, 0, 0]) = 8"
proof -
  have p: "1 < OS coarse_example ! 0 * OS coarse_example ! 1 * OS coarse_example ! 2"
    by (simp add: coarse_example_fields)
  have q: "OS coarse_example ! 0 * OS coarse_example ! 1 * OS coarse_example ! 2 \<le> 2147483647"
    by (simp add: coarse_example_fields)
  have f: "to_value_type half_source = (\<lambda>v. v)" by (simp add: half_source_def source_on_def)
  show ?thesis
    using value_oversampled[OF coarse_example_ok p q f, of 0 0 0] coarse_example_ok f
    by (simp add: coarse_example_fields positions_coarse contribution_def half_source_def
        source_on_def)
qed

text \<open>
  C2. The spec says that on an oversampled voxel where exactly half of the sub-samples are
  reported invalid and every valid one has the value \<open>V\<close>, \<^verbatim>\<open>value()\<close> returns \<open>V / 2\<close>. Over an
  image of an integer value type, with the factors 2, 2, 2, four of the eight sub-samples
  invalid and the value 3 at the valid ones, \<^verbatim>\<open>value()\<close> is 1: the product 12 * 0.125 is
  truncated when it is stored into the \<^verbatim>\<open>value_type\<close> result.
\<close>

theorem value_half_invalid_truncated:
  "Reslice integer_source (grid 2 2) NoTransform AutoOverSample = Inr integer_example
   \<and> oversampling integer_example
   \<and> 2 * length (filter (\<lambda>p. \<not> in_bounds integer_source p)
                 (subsample_positions (direct_transform integer_example) (OS integer_example) [0, 0, 0])) =
         length (subsample_positions (direct_transform integer_example) (OS integer_example) [0, 0, 0])
   \<and> list_all (\<lambda>p. in_bounds integer_source p \<longrightarrow> value_at integer_source (idx integer_source) p = 3)
         (subsample_positions (direct_transform integer_example) (OS integer_example) [0, 0, 0])
   \<and> fst (value_const (integer_example\<lparr>x := [0, 0, 0]\<rparr>)) = 1
   \<and> fst (value_const (integer_example\<lparr>x := [0, 0, 0]\<rparr>)) \<noteq> 3 / 2"
  using integer_example_ok integer_example_value
  by (simp add: integer_example_fields positions_coarse integer_source_def half_source_def
      source_on_def)

text \<open>
  C2, as amended. Over an image of a floating-point value type, on a voxel that the object
  oversamples (its flag \<^verbatim>\<open>oversampling\<close> is set), where exactly half of the sub-samples, by
  count, are reported invalid and every valid sub-sample has the value \<open>V\<close>, \<^verbatim>\<open>value()\<close>
  returns \<open>V / 2\<close>.
\<close>

theorem value_half_invalid:
  assumes "Reslice it reference T ov = Inr r"
    and "oversampling r"
    and "to_value_type it = (\<lambda>v. v)"
    and "2 * length (filter (\<lambda>p. \<not> in_bounds it p)
                 (subsample_positions (direct_transform r) (OS r) [c0, c1, c2])) =
         length (subsample_positions (direct_transform r) (OS r) [c0, c1, c2])"
    and "\<forall>p\<in>set (subsample_positions (direct_transform r) (OS r) [c0, c1, c2]).
           in_bounds it p \<longrightarrow> value_at it (idx it) p = V"
  shows "fst (value_const (r\<lparr>x := [c0, c1, c2]\<rparr>)) = V / 2"
proof -
  let ?ps = "subsample_positions (direct_transform r) (OS r) [c0, c1, c2]"
  have n: "int (length ?ps) = OS r ! 0 * OS r ! 1 * OS r ! 2"
    using assms(1,2) by (rule subsample_count_oversampling)
  have h: "2 * length (filter (in_bounds it) ?ps) = length ?ps"
    using assms(4) by (rule half_valid)
  have s: "sum_list (map (contribution it) ?ps) = V * real (length (filter (in_bounds it) ?ps))"
    using assms(5) by (rule sum_contribution_constant)
  have "0 < OS r ! 0 * OS r ! 1 * OS r ! 2"
    using Reslice_oversampling_factors[OF assms(1,2)] by simp
  then have pos: "0 < length ?ps" using n by linarith
  define m where "m = length (filter (in_bounds it) ?ps)"
  have l: "real (length ?ps) = 2 * real m"
    using h unfolding m_def by (metis of_nat_mult of_nat_numeral)
  have "0 < real (length ?ps)" using pos by simp
  then have m0: "0 < real m" unfolding l by simp
  have "fst (value_const (r\<lparr>x := [c0, c1, c2]\<rparr>)) = V * real m * (1 / real (length ?ps))"
    using value_const_oversampled_sum[OF assms(1-3), of c0 c1 c2] s n unfolding m_def
    by (metis of_int_of_nat_eq)
  also have "\<dots> = V * real m * (1 / (2 * real m))" by (simp only: l)
  also have "\<dots> = V / 2" using m0 by simp
  finally show ?thesis .
qed

theorem value_half_invalid_witness:
  "Reslice half_source (grid 2 2) NoTransform AutoOverSample = Inr coarse_example
   \<and> oversampling coarse_example
   \<and> to_value_type half_source = (\<lambda>v. v)
   \<and> 2 * length (filter (\<lambda>p. \<not> in_bounds half_source p)
                 (subsample_positions (direct_transform coarse_example) (OS coarse_example) [0, 0, 0])) =
         length (subsample_positions (direct_transform coarse_example) (OS coarse_example) [0, 0, 0])
   \<and> list_all (\<lambda>p. in_bounds half_source p \<longrightarrow> value_at half_source (idx half_source) p = 3)
         (subsample_positions (direct_transform coarse_example) (OS coarse_example) [0, 0, 0])
   \<and> fst (value_const (coarse_example\<lparr>x := [0, 0, 0]\<rparr>)) = 3 / 2"
proof -
  have f: "to_value_type half_source = (\<lambda>v. v)" by (simp add: half_source_def source_on_def)
  have h: "2 * length (filter (\<lambda>p. \<not> in_bounds half_source p)
                 (subsample_positions (direct_transform coarse_example) (OS coarse_example) [0, 0, 0])) =
         length (subsample_positions (direct_transform coarse_example) (OS coarse_example) [0, 0, 0])"
    by (simp add: coarse_example_fields positions_coarse half_source_def source_on_def)
  have v: "\<forall>p\<in>set (subsample_positions (direct_transform coarse_example) (OS coarse_example) [0, 0, 0]).
           in_bounds half_source p \<longrightarrow> value_at half_source (idx half_source) p = 3"
    by (simp add: half_source_def source_on_def)
  show ?thesis
    using value_half_invalid[OF coarse_example_ok coarse_example_fields(3) f h v]
      coarse_example_ok coarse_example_fields(3) f h v
    by (simp add: list_all_iff)
qed

text \<open>
  C5. With the explicit factors 1, 1, 1, or with estimated factors whose product is 1, at
  every cursor position \<^verbatim>\<open>value()\<close> makes exactly one query of the interpolator, at the image
  of the integer cursor under the composed transform, and returns the source's value there
  as it is.
\<close>

theorem value_not_oversampled:
  assumes "Reslice it reference T ov = Inr r"
    and "ov = [1, 1, 1] \<or> (ov = AutoOverSample \<and> OS r ! 0 * OS r ! 1 * OS r ! 2 = 1)"
  shows "value_const (r\<lparr>x := [c0, c1, c2]\<rparr>) =
           (value_at it (idx it)
              (transform_apply (direct_transform r)
                 (real_of_int c0, real_of_int c1, real_of_int c2)),
            r\<lparr>x := [c0, c1, c2],
              interp := it\<lparr>pos := transform_apply (direct_transform r)
                                   (real_of_int c0, real_of_int c1, real_of_int c2),
                           lookups := Suc (lookups it)\<rparr>\<rparr>)"
proof -
  have os: "oversample_factors (composed it reference T) ov = Inr (OS r)"
    using assms(1) by (rule Reslice_Inr(7))
  have "OS r ! 0 * OS r ! 1 * OS r ! 2 = 1"
  proof (cases "ov = [1, 1, 1]")
    case True
    then have "OS r = [1, 1, 1]" using os by (simp add: oversample_factors_def)
    then show ?thesis by simp
  next
    case False
    then show ?thesis using assms(2) by simp
  qed
  then have "wrap_int (wrap_int (OS r ! 0 * OS r ! 1) * OS r ! 2) = 1"
    by (simp add: wrap_int_product)
  then have "\<not> oversampling r" using Reslice_Inr(8)[OF assms(1)] by simp
  moreover have "interp r = it" using assms(1) by (rule Reslice_Inr(1))
  ultimately show ?thesis
    by (simp add: value_const_def Let_def interp_voxel_def interp_value_def)
qed

theorem value_not_oversampled_witness:
  "Reslice half_source (grid 2 2) NoTransform [1, 1, 1] = Inr plain_example
   \<and> fst (value_const (plain_example\<lparr>x := [1, 0, 0]\<rparr>)) = 3
   \<and> pos (interp (snd (value_const (plain_example\<lparr>x := [1, 0, 0]\<rparr>)))) = (2, 0, 0)
   \<and> lookups (interp (snd (value_const (plain_example\<lparr>x := [1, 0, 0]\<rparr>)))) = 1"
proof -
  have h: "[1, 1, 1] = [1, 1, 1] \<or>
      ([1, 1, 1] = AutoOverSample \<and> OS plain_example ! 0 * OS plain_example ! 1 * OS plain_example ! 2 = 1)"
    by simp
  show ?thesis
    using value_not_oversampled[OF plain_example_ok h, of 1 0 0] plain_example_ok
    by (simp add: plain_example_fields transform_apply_def half_source_def source_on_def)
qed

subsection \<open>Shape, spacing and transform\<close>



subsection \<open>Construction and the oversampling factors\<close>

text \<open>
  C6. The spec says that construction fails if and only if an explicit triple of factors
  has a factor less than 1. Construction also fails, by an assertion, over a source with
  two axes and no explicit factors, and with the explicit factors 2, 2, which are not a
  triple.
\<close>

theorem construction_fails_by_assertion:
  "Reslice flat_source (grid 2 2) NoTransform AutoOverSample = Inl (Assertion ''ndim() >= 3'')
   \<and> Reslice half_source (grid 2 2) NoTransform [2, 2] =
        Inl (Assertion ''oversample.size() == 3'')"
  by (simp add: Reslice_def Let_def flat_source_def half_source_def source_on_def grid_def
      oversample_factors_def AutoOverSample_def)

text \<open>
  C6, as amended. Where the constructor's assertions hold (at least three axes; an
  oversampling vector that is empty or has three entries), construction fails if and only
  if the vector is an explicit triple with a factor less than 1 on some axis, and it fails
  by the exception; explicit factors that are all at least 1 become the members \<^verbatim>\<open>OS\<close> as
  they are, whatever the estimate would be.
\<close>

theorem construction_fails_iff:
  assumes "3 \<le> hdr_ndim (image it)" and "ov = AutoOverSample \<or> length ov = 3"
  shows "(isl (Reslice it reference T ov) \<longleftrightarrow>
            length ov = 3 \<and> (ov ! 0 < 1 \<or> ov ! 1 < 1 \<or> ov ! 2 < 1))
       \<and> (isl (Reslice it reference T ov) \<longrightarrow>
            Reslice it reference T ov =
              Inl (Exception ''oversample factors must be greater than zero''))
       \<and> (length ov = 3 \<and> 1 \<le> ov ! 0 \<and> 1 \<le> ov ! 1 \<and> 1 \<le> ov ! 2 \<longrightarrow>
            (\<exists>r. Reslice it reference T ov = Inr r \<and> OS r = ov))"
proof -
  have l3: "length ov = 3 \<Longrightarrow> [ov ! 0, ov ! 1, ov ! 2] = ov"
    by (cases ov; cases "tl ov"; cases "tl (tl ov)") auto
  show ?thesis
    using assms l3
    by (auto simp: Reslice_def oversample_factors_def AutoOverSample_def Let_def)
qed

theorem construction_fails_iff_witness:
  "3 \<le> hdr_ndim (image half_source)
   \<and> ([0, 1, 1] = AutoOverSample \<or> length [0, 1, 1 :: int] = 3)
   \<and> Reslice half_source (grid 2 2) NoTransform [0, 1, 1] =
        Inl (Exception ''oversample factors must be greater than zero'')
   \<and> ([3, 1, 2] = AutoOverSample \<or> length [3, 1, 2 :: int] = 3)
   \<and> \<not> isl (Reslice half_source (grid 2 2) NoTransform [3, 1, 2])
   \<and> OS (projr (Reslice half_source (grid 2 2) NoTransform [3, 1, 2])) = [3, 1, 2]
   \<and> \<not> isl (Reslice half_source (grid 2 2) NoTransform AutoOverSample)"
proof -
  have n: "3 \<le> hdr_ndim (image half_source)"
    by (simp add: half_source_def source_on_def grid_def)
  have a: "[0, 1, 1] = AutoOverSample \<or> length [0, 1, 1 :: int] = 3" by simp
  have b: "[3, 1, 2] = AutoOverSample \<or> length [3, 1, 2 :: int] = 3" by simp
  have c: "AutoOverSample = AutoOverSample \<or> length AutoOverSample = 3" by simp
  show ?thesis
    using construction_fails_iff[OF n a, of "grid 2 2" NoTransform]
      construction_fails_iff[OF n b, of "grid 2 2" NoTransform]
      construction_fails_iff[OF n c, of "grid 2 2" NoTransform] n
    by (auto simp: AutoOverSample_def)
qed

subsection \<open>The estimated factors and the reference spacing\<close>

lemma vec_norm_nonneg: "0 \<le> vec_norm v"
  by (cases v) simp

lemma vec_norm_pos: "v \<noteq> (0, 0, 0) \<Longrightarrow> 0 < vec_norm v"
proof (cases v)
  case (fields a b c)
  assume "v \<noteq> (0, 0, 0)"
  then have "a \<noteq> 0 \<or> b \<noteq> 0 \<or> c \<noteq> 0" using fields by simp
  then have "0 < a * a + b * b + c * c"
    by (metis add_pos_nonneg add_nonneg_pos zero_le_square not_real_square_gt_zero add_nonneg_nonneg)
  then show ?thesis using fields by simp
qed

lemma vec_norm_neg_scale: "vec_norm (vec_neg (vec_scale k v)) = \<bar>k\<bar> * vec_norm v"
proof (cases v)
  case (fields a b c)
  have "(- (k * a)) * (- (k * a)) + (- (k * b)) * (- (k * b)) + (- (k * c)) * (- (k * c))
       = k\<^sup>2 * (a * a + b * b + c * c)"
    by (simp add: power2_eq_square algebra_simps)
  then show ?thesis using fields by (simp add: real_sqrt_mult)
qed

lemma displacement:
  "vec_sub (transform_apply D (0, 0, 0)) (transform_apply D e) = vec_neg (mat_vec (linear D) e)"
  by (cases "linear D" rule: prod_cases3; cases "translation D"; cases e)
     (auto simp: transform_apply_def)

lemma ceil_estimate_eq:
  "ceil_estimate D e = real_of_int \<lceil>0.999 * vec_norm (vec_neg (mat_vec (linear D) e))\<rceil>"
  by (simp add: ceil_estimate_def Let_def displacement)

lemma estimate_factor_in_range:
  assumes "ceil_estimate D e \<le> 2147483647"
  shows "estimate_factor D e = \<lceil>0.999 * vec_norm (vec_neg (mat_vec (linear D) e))\<rceil>"
proof -
  let ?n = "\<lceil>0.999 * vec_norm (vec_neg (mat_vec (linear D) e))\<rceil>"
  have "0 \<le> real_of_int ?n" using ceil_estimate_nonneg[of D e] by (simp only: ceil_estimate_eq)
  then have a: "0 \<le> ?n" by simp
  have "real_of_int ?n \<le> 2147483647" using assms by (simp only: ceil_estimate_eq)
  then have b: "?n \<le> 2147483647" by linarith
  show ?thesis
    unfolding estimate_factor_def ceil_estimate_eq using a b by (rule double_to_int_of_int)
qed

lemma column_nonzero:
  assumes "mat_det M \<noteq> 0"
  shows "mat_vec M (1, 0, 0) \<noteq> (0, 0, 0)" and "mat_vec M (0, 1, 0) \<noteq> (0, 0, 0)"
    and "mat_vec M (0, 0, 1) \<noteq> (0, 0, 0)"
proof -
  obtain r0 r1 r2 where m: "M = (r0, r1, r2)" by (cases M)
  obtain a b c where r0: "r0 = (a, b, c)" by (cases r0)
  obtain d e f where r1: "r1 = (d, e, f)" by (cases r1)
  obtain g h i where r2: "r2 = (g, h, i)" by (cases r2)
  show "mat_vec M (1, 0, 0) \<noteq> (0, 0, 0)" using assms by (auto simp: m r0 r1 r2)
  show "mat_vec M (0, 1, 0) \<noteq> (0, 0, 0)" using assms by (auto simp: m r0 r1 r2)
  show "mat_vec M (0, 0, 1) \<noteq> (0, 0, 0)" using assms by (auto simp: m r0 r1 r2)
qed

lemma vec_neg_zero: "vec_neg v = (0, 0, 0) \<longleftrightarrow> v = (0, 0, 0)"
  by (cases v) simp

lemma estimate_factor_pos:
  assumes "mat_vec (linear D) e \<noteq> (0, 0, 0)" and "ceil_estimate D e \<le> 2147483647"
  shows "1 \<le> estimate_factor D e"
proof -
  have "vec_neg (mat_vec (linear D) e) \<noteq> (0, 0, 0)" using assms(1) by (simp add: vec_neg_zero)
  then have "0 < vec_norm (vec_neg (mat_vec (linear D) e))" by (rule vec_norm_pos)
  then have "0 < 0.999 * vec_norm (vec_neg (mat_vec (linear D) e))" by simp
  then show ?thesis
    unfolding estimate_factor_in_range[OF assms(2)] by (simp only: one_le_ceiling)
qed

lemma Reslice_auto_factors:
  assumes "Reslice it reference T AutoOverSample = Inr r"
  shows "OS r = [estimate_factor (direct_transform r) (1, 0, 0),
                 estimate_factor (direct_transform r) (0, 1, 0),
                 estimate_factor (direct_transform r) (0, 0, 1)]"
  using Reslice_Inr(6,7)[OF assms] by (simp add: oversample_factors_def AutoOverSample_def)

text \<open>
  C7. The spec says that over an invertible composed mapping each estimated factor is at
  least 1. With a reference voxel size of 3000000000 on axis 0 the composed mapping is
  invertible, the ceiling 2997000000 does not fit in the \<^verbatim>\<open>int\<close> it is stored in, and the
  factor on axis 0 is the smallest \<^verbatim>\<open>int\<close>.
\<close>

theorem estimated_factor_below_one:
  "Reslice half_source huge_reference NoTransform AutoOverSample = Inr huge_example
   \<and> mat_det (linear (direct_transform huge_example)) = 12000000000
   \<and> OS huge_example ! 0 = - 2147483648"
  using huge_example_ok by (simp add: huge_example_fields)

text \<open>
  C7, as amended. Where the composed transform is invertible (its linear part has a
  determinant other than 0) and the ceiling computed for each axis fits in an \<^verbatim>\<open>int\<close>, each
  estimated factor is at least 1.
\<close>

theorem estimated_factors_positive:
  assumes "Reslice it reference T AutoOverSample = Inr r"
    and "mat_det (linear (direct_transform r)) \<noteq> 0"
    and "ceil_estimate (direct_transform r) (1, 0, 0) \<le> 2147483647"
    and "ceil_estimate (direct_transform r) (0, 1, 0) \<le> 2147483647"
    and "ceil_estimate (direct_transform r) (0, 0, 1) \<le> 2147483647"
  shows "1 \<le> OS r ! 0 \<and> 1 \<le> OS r ! 1 \<and> 1 \<le> OS r ! 2"
  using column_nonzero[OF assms(2)] estimate_factor_pos assms(3-5)
  by (simp add: Reslice_auto_factors[OF assms(1)])

theorem estimated_factors_positive_witness:
  "Reslice half_source (grid 2 2) NoTransform AutoOverSample = Inr coarse_example
   \<and> mat_det (linear (direct_transform coarse_example)) = 8
   \<and> ceil_estimate (direct_transform coarse_example) (1, 0, 0) = 2
   \<and> ceil_estimate (direct_transform coarse_example) (0, 1, 0) = 2
   \<and> ceil_estimate (direct_transform coarse_example) (0, 0, 1) = 2
   \<and> 1 \<le> OS coarse_example ! 0 \<and> 1 \<le> OS coarse_example ! 1 \<and> 1 \<le> OS coarse_example ! 2
   \<and> OS coarse_example = [2, 2, 2]"
proof -
  have d: "mat_det (linear (direct_transform coarse_example)) \<noteq> 0"
    by (simp add: coarse_example_fields)
  have c: "ceil_estimate (direct_transform coarse_example) (1, 0, 0) = 2"
    "ceil_estimate (direct_transform coarse_example) (0, 1, 0) = 2"
    "ceil_estimate (direct_transform coarse_example) (0, 0, 1) = 2"
    by (simp_all add: coarse_example_fields ceil_estimate_def transform_apply_def Let_def)
  have c1: "ceil_estimate (direct_transform coarse_example) (1, 0, 0) \<le> 2147483647"
    and c2: "ceil_estimate (direct_transform coarse_example) (0, 1, 0) \<le> 2147483647"
    and c3: "ceil_estimate (direct_transform coarse_example) (0, 0, 1) \<le> 2147483647"
    by (simp_all add: c)
  show ?thesis
    using estimated_factors_positive[OF coarse_example_ok d c1 c2 c3] coarse_example_ok c
    by (simp add: coarse_example_fields)
qed

lemma mat_vec_mul: "mat_vec (mat_mul A B) v = mat_vec A (mat_vec B v)"
proof -
  obtain r0 r1 r2 where m: "A = (r0, r1, r2)" by (cases A)
  obtain a b c where r0: "r0 = (a, b, c)" by (cases r0)
  obtain d e f where r1: "r1 = (d, e, f)" by (cases r1)
  obtain g h i where r2: "r2 = (g, h, i)" by (cases r2)
  obtain q0 q1 q2 where mb: "B = (q0, q1, q2)" by (cases B)
  obtain a' b' c' where q0: "q0 = (a', b', c')" by (cases q0)
  obtain d' e' f' where q1: "q1 = (d', e', f')" by (cases q1)
  obtain g' h' i' where q2: "q2 = (g', h', i')" by (cases q2)
  obtain v0 v1 v2 where v: "v = (v0, v1, v2)" by (cases v)
  show ?thesis by (simp add: m r0 r1 r2 mb q0 q1 q2 v algebra_simps)
qed

lemma mat_vec_scale: "mat_vec A (vec_scale k v) = vec_scale k (mat_vec A v)"
proof -
  obtain r0 r1 r2 where m: "A = (r0, r1, r2)" by (cases A)
  obtain a b c where r0: "r0 = (a, b, c)" by (cases r0)
  obtain d e f where r1: "r1 = (d, e, f)" by (cases r1)
  obtain g h i where r2: "r2 = (g, h, i)" by (cases r2)
  obtain v0 v1 v2 where v: "v = (v0, v1, v2)" by (cases v)
  show ?thesis by (simp add: m r0 r1 r2 v algebra_simps)
qed

lemma diagonal_unit_step:
  "i < 3 \<Longrightarrow> mat_vec (diagonal (s 0, s 1, s (2::nat))) (unit_step i) = vec_scale (s i) (unit_step i)"
proof -
  assume "i < 3"
  then have "i = 0 \<or> i = 1 \<or> i = 2" by auto
  then show ?thesis by (auto simp: unit_step_def)
qed

lemma composed_unit_step:
  assumes "i < 3"
  shows "mat_vec (linear (composed it reference T)) (unit_step i) =
         vec_scale (hdr_voxsize reference i) (mat_vec (unscaled it reference T) (unit_step i))"
proof -
  have "mat_vec (linear (composed it reference T)) (unit_step i) =
        mat_vec (mat_mul (linear (scanner2voxel (Transform (image it)))) (linear T))
          (mat_vec (linear (hdr_transform reference))
             (mat_vec (diagonal (hdr_voxsize reference 0, hdr_voxsize reference 1,
                                 hdr_voxsize reference 2)) (unit_step i)))"
    by (simp add: composed_def transform_mul_def Transform_def transform_scale_def Let_def
        mat_vec_mul del: diagonal.simps)
  then show ?thesis
    by (simp only: diagonal_unit_step[OF assms] mat_vec_scale unscaled_def mat_vec_mul)
qed

lemma ceil_estimate_composed:
  assumes "i < 3"
  shows "ceil_estimate (composed it reference T) (unit_step i) =
         real_of_int \<lceil>0.999 * (\<bar>hdr_voxsize reference i\<bar> *
                     vec_norm (mat_vec (unscaled it reference T) (unit_step i)))\<rceil>"
  by (simp add: ceil_estimate_eq composed_unit_step[OF assms] vec_norm_neg_scale)

lemma Reslice_auto_factor_nth:
  assumes "Reslice it reference T AutoOverSample = Inr r" and "i < 3"
  shows "OS r ! i = estimate_factor (composed it reference T) (unit_step i)"
proof -
  from assms(2) have "i = 0 \<or> i = 1 \<or> i = 2" by auto
  then show ?thesis
    using Reslice_auto_factors[OF assms(1)] Reslice_Inr(6)[OF assms(1)]
    by (auto simp: unit_step_def)
qed

text \<open>
  C4. The spec says that reducing the reference's voxel size on an axis never decreases the
  estimated factor on that axis. It does: with the reference's voxel size on axis 0
  reduced from 2 to 1 over a source of voxel size 1, the factor on axis 0 falls from 2
  to 1. (At the voxel size 3000000000 the ceiling does not fit in an \<^verbatim>\<open>int\<close> and the factor
  is the smallest \<^verbatim>\<open>int\<close>.)
\<close>

theorem finer_reference_smaller_factor:
  "Reslice half_source (grid 2 2) NoTransform AutoOverSample = Inr coarse_example
   \<and> Reslice half_source ((grid 2 2)\<lparr>hdr_voxsize := (hdr_voxsize (grid 2 2))(0 := 1)\<rparr>)
        NoTransform AutoOverSample = Inr finer_example
   \<and> hdr_voxsize ((grid 2 2)\<lparr>hdr_voxsize := (hdr_voxsize (grid 2 2))(0 := 1)\<rparr>) 0
        < hdr_voxsize (grid 2 2) 0
   \<and> OS coarse_example ! 0 = 2
   \<and> OS finer_example ! 0 = 1
   \<and> Reslice half_source huge_reference NoTransform AutoOverSample = Inr huge_example
   \<and> hdr_voxsize huge_reference 0 = 3000000000
   \<and> OS huge_example ! 0 = - 2147483648"
  using coarse_example_ok finer_example_ok huge_example_ok
  by (simp add: coarse_example_fields finer_example_fields huge_example_fields grid_def
      huge_reference_def)

text \<open>
  C4, as amended. For a fixed source, extra transform and reference whose ceiling on an
  axis fits in an \<^verbatim>\<open>int\<close>, replacing the reference's voxel size on that axis by a smaller
  positive one never increases the estimated factor on that axis.
\<close>

theorem factor_monotone_in_reference_spacing:
  assumes "i < 3" and "0 < s'" and "s' \<le> hdr_voxsize reference i"
    and "Reslice it reference T AutoOverSample = Inr r"
    and "Reslice it (reference\<lparr>hdr_voxsize := (hdr_voxsize reference)(i := s')\<rparr>) T AutoOverSample
           = Inr r'"
    and "ceil_estimate (direct_transform r) (unit_step i) \<le> 2147483647"
  shows "OS r' ! i \<le> OS r ! i"
proof -
  let ?ref' = "reference\<lparr>hdr_voxsize := (hdr_voxsize reference)(i := s')\<rparr>"
  let ?N = "vec_norm (mat_vec (unscaled it reference T) (unit_step i))"
  have u: "unscaled it ?ref' T = unscaled it reference T" by (simp add: unscaled_def)
  have n: "0 \<le> ?N" by (rule vec_norm_nonneg)
  have "\<bar>s'\<bar> \<le> \<bar>hdr_voxsize reference i\<bar>" using assms(2,3) by simp
  then have "0.999 * (\<bar>s'\<bar> * ?N) \<le> 0.999 * (\<bar>hdr_voxsize reference i\<bar> * ?N)"
    using n by (simp add: mult_right_mono)
  then have m: "\<lceil>0.999 * (\<bar>s'\<bar> * ?N)\<rceil> \<le> \<lceil>0.999 * (\<bar>hdr_voxsize reference i\<bar> * ?N)\<rceil>"
    by (rule ceiling_mono)
  have c: "ceil_estimate (composed it reference T) (unit_step i) \<le> 2147483647"
    using assms(6) Reslice_Inr(6)[OF assms(4)] by simp
  have le: "ceil_estimate (composed it ?ref' T) (unit_step i)
      \<le> ceil_estimate (composed it reference T) (unit_step i)"
    unfolding ceil_estimate_composed[OF assms(1)] u using m by simp
  then have c': "ceil_estimate (composed it ?ref' T) (unit_step i) \<le> 2147483647"
    using c by linarith
  have "estimate_factor (composed it ?ref' T) (unit_step i)
      \<le> estimate_factor (composed it reference T) (unit_step i)"
    using le
    unfolding estimate_factor_in_range[OF c] estimate_factor_in_range[OF c'] ceil_estimate_eq
    by simp
  then show ?thesis
    by (simp add: Reslice_auto_factor_nth[OF assms(4,1)] Reslice_auto_factor_nth[OF assms(5,1)])
qed

theorem factor_monotone_in_reference_spacing_witness:
  "(0::nat) < 3 \<and> (0::real) < 1 \<and> 1 \<le> hdr_voxsize (grid 2 2) 0
   \<and> Reslice half_source (grid 2 2) NoTransform AutoOverSample = Inr coarse_example
   \<and> Reslice half_source ((grid 2 2)\<lparr>hdr_voxsize := (hdr_voxsize (grid 2 2))(0 := 1)\<rparr>)
        NoTransform AutoOverSample = Inr finer_example
   \<and> ceil_estimate (direct_transform coarse_example) (unit_step 0) \<le> 2147483647
   \<and> OS finer_example ! 0 \<le> OS coarse_example ! 0"
proof -
  have a: "(0::nat) < 3" by simp
  have b: "(0::real) < 1" by simp
  have c: "1 \<le> hdr_voxsize (grid 2 2) 0" by (simp add: grid_def)
  have d: "ceil_estimate (direct_transform coarse_example) (unit_step 0) \<le> 2147483647"
    by (simp add: coarse_example_fields ceil_estimate_def transform_apply_def Let_def
        unit_step_def)
  show ?thesis
    using factor_monotone_in_reference_spacing[OF a b c coarse_example_ok finer_example_ok d]
      c d coarse_example_ok finer_example_ok by simp
qed

text \<open>
  C3. The spec says that in the end-to-end example the estimated factors are 2, 2, 2 and that
  a source volume of constant value 3 gives 3 at every output voxel. The factors are
  1, 1, 1: a unit step of the reference covers half a source voxel, and the ceiling of
  0.999 * 0.5 is 1. And the output voxel (7, 0, 0) lies at the source position
  (3.5, 0, 0), beyond the last voxel's half-width: there the source reports its fallback
  value, here 0.
\<close>

theorem example_factors_and_edge_value:
  "Reslice boxed_source (grid 8 (1 / 2)) NoTransform AutoOverSample = Inr fine_example
   \<and> OS fine_example = [1, 1, 1] \<and> OS fine_example \<noteq> [2, 2, 2]
   \<and> fst (value_const (fine_example\<lparr>x := [7, 0, 0]\<rparr>)) = 0
   \<and> fst (value_const (fine_example\<lparr>x := [7, 0, 0]\<rparr>)) \<noteq> 3"
  using fine_example_ok
  by (simp add: fine_example_fields value_const_def Let_def interp_voxel_def interp_value_def
      transform_apply_def boxed_source_def constant_volume_def)

lemma constant_volume_value:
  "value_at (constant_volume h ok v oob) ix p = (if ok p then v else oob)"
  by (simp add: constant_volume_def)

lemma composed_example:
  assumes "is_grid h 4 1" and "is_grid reference 8 (1 / 2)"
  shows "composed (constant_volume h ok v oob) reference NoTransform =
           \<lparr>linear = ((1 / 2, 0, 0), (0, 1 / 2, 0), (0, 0, 1 / 2)), translation = (0, 0, 0)\<rparr>"
  using assms
  by (simp add: is_grid_def constant_volume_def composed_def Transform_def transform_scale_def
      transform_inverse_def transform_mul_def transform_apply_def NoTransform_def
      identity_transform_def identity_matrix_def Let_def)

text \<open>
  C3, as amended. With a source grid of 4 voxels of size 1, a reference grid of 8 voxels of
  size 0.5, identity transforms, no extra transform and no explicit factors, construction
  succeeds with the factors 1, 1, 1, and over a source volume in which every voxel has the
  value 3 the value at the output voxel \<open>(c0, c1, c2)\<close> is 3 where the source reports the
  position \<open>(c0 / 2, c1 / 2, c2 / 2)\<close> valid, and the source's fallback value elsewhere.
\<close>

theorem example_resampling:
  assumes "is_grid h 4 1" and "is_grid reference 8 (1 / 2)"
  shows "\<exists>r. Reslice (constant_volume h ok 3 oob) reference NoTransform AutoOverSample = Inr r
           \<and> OS r = [1, 1, 1]
           \<and> (\<forall>c0 c1 c2. fst (value_const (r\<lparr>x := [c0, c1, c2]\<rparr>)) =
                 (if ok (real_of_int c0 / 2, real_of_int c1 / 2, real_of_int c2 / 2) then 3
                  else oob))"
proof -
  let ?it = "constant_volume h ok 3 oob"
  let ?r = "projr (Reslice ?it reference NoTransform AutoOverSample)"
  have n: "3 \<le> hdr_ndim (image ?it)"
    using assms(1) by (simp add: is_grid_def constant_volume_def)
  note e = Reslice_eval[OF n composed_example[OF assms] factors_fine]
  have o: "\<not> oversampling ?r" using e(5) by (simp add: wrap_int_def)
  have v: "fst (value_const (?r\<lparr>x := [c0, c1, c2]\<rparr>)) =
             (if ok (real_of_int c0 / 2, real_of_int c1 / 2, real_of_int c2 / 2) then 3 else oob)"
    for c0 c1 c2
    using o
    by (simp add: value_const_def Let_def interp_voxel_def interp_value_def e(3,4)
        transform_apply_def constant_volume_value)
  show ?thesis using e(1,2) v by blast
qed

theorem example_resampling_witness:
  "is_grid (grid 4 1) 4 1 \<and> is_grid (grid 8 (1 / 2)) 8 (1 / 2)
   \<and> Reslice boxed_source (grid 8 (1 / 2)) NoTransform AutoOverSample = Inr fine_example
   \<and> OS fine_example = [1, 1, 1]
   \<and> fst (value_const (fine_example\<lparr>x := [6, 0, 3]\<rparr>)) = 3
   \<and> fst (value_const (fine_example\<lparr>x := [0, 7, 0]\<rparr>)) = 0"
proof -
  have a: "is_grid (grid 4 1) 4 1" by (simp add: is_grid_def grid_def)
  have b: "is_grid (grid 8 (1 / 2)) 8 (1 / 2)" by (simp add: is_grid_def grid_def)
  obtain r where r: "Reslice (constant_volume (grid 4 1) (inside 4) 3 0) (grid 8 (1 / 2))
        NoTransform AutoOverSample = Inr r"
    and os: "OS r = [1, 1, 1]"
    and v: "\<forall>c0 c1 c2. fst (value_const (r\<lparr>x := [c0, c1, c2]\<rparr>)) =
                 (if inside 4 (real_of_int c0 / 2, real_of_int c1 / 2, real_of_int c2 / 2) then 3
                  else 0)"
    using example_resampling[OF a b, of "inside 4" 0] by blast
  have eq: "r = fine_example" using r fine_example_ok by (simp add: boxed_source_def)
  have v1: "fst (value_const (fine_example\<lparr>x := [6, 0, 3]\<rparr>)) = 3"
    using v[rule_format, of 6 0 3] eq by simp
  have v2: "fst (value_const (fine_example\<lparr>x := [0, 7, 0]\<rparr>)) = 0"
    using v[rule_format, of 0 7 0] eq by simp
  show ?thesis using a b fine_example_ok os eq v1 v2 by simp
qed

subsection \<open>The two overloads of \<^verbatim>\<open>value()\<close>\<close>

text \<open>
  C10. The spec says that the overload of \<^verbatim>\<open>value()\<close> that is not const returns exactly the
  value computed by the const overload it delegates to. The code calls the const overload
  and drops its result: in every state no value is returned.
\<close>

theorem value_nonconst_returns_nothing:
  "fst (value_nonconst r) = None \<and> snd (value_nonconst r) = snd (value_const r)"
  by (simp add: value_nonconst_def Let_def)

text \<open>
  C9. The spec says that any two invocations of \<^verbatim>\<open>value()\<close> in one state, through either
  overload, return equal results. Two invocations of the const overload do (it is a
  function of the state, \<open>value_const_depends_on\<close>), but the overload that is not const
  returns no value, so in every state its result differs from the value the const overload
  returns.
\<close>

theorem value_overloads_disagree:
  "fst (value_nonconst r) \<noteq> Some (fst (value_const r))"
  by (simp add: value_nonconst_def Let_def)

end
